theory Spec2Isabelle
  imports Complex_Main "HOL-Library.Sublist" "HOL-Library.Char_ord" "HOL-Library.List_Lexorder"
begin

section \<open>Python strings\<close>

text \<open>
  Strings are character lists. The operators of the analyzer that the model needs are
  \<^verbatim>\<open>sub in s\<close>, \<^verbatim>\<open>s.split(c)\<close> for a separator of one character,
  \<^verbatim>\<open>s.strip()\<close>, \<^verbatim>\<open>s.lower()\<close>, \<^verbatim>\<open>s.startswith(p)\<close> (which is
  \<^const>\<open>prefix\<close>) and the truth value of an optional string.
\<close>

fun py_in :: "string \<Rightarrow> string \<Rightarrow> bool" where
  "py_in sub [] = (sub = [])"
| "py_in sub (c # cs) = (prefix sub (c # cs) \<or> py_in sub cs)"

fun split_on :: "char \<Rightarrow> string \<Rightarrow> string list" where
  "split_on c [] = [[]]"
| "split_on c (x # xs) =
     (if x = c then [] # split_on c xs
      else (case split_on c xs of [] \<Rightarrow> [[x]] | w # ws \<Rightarrow> (x # w) # ws))"

definition is_space :: "char \<Rightarrow> bool" where
  "is_space c = (let n = (of_char c :: nat) in
     (9 \<le> n \<and> n \<le> 13) \<or> (28 \<le> n \<and> n \<le> 32) \<or> n = 133 \<or> n = 160)"

definition strip :: "string \<Rightarrow> string" where
  "strip s = dropWhile is_space (rev (dropWhile is_space (rev s)))"

definition lower_char :: "char \<Rightarrow> char" where
  "lower_char c =
     (case map_of (zip ''ABCDEFGHIJKLMNOPQRSTUVWXYZ'' ''abcdefghijklmnopqrstuvwxyz'') c of
        None \<Rightarrow> c | Some l \<Rightarrow> l)"

definition lower :: "string \<Rightarrow> string" where
  "lower s = map lower_char s"

text \<open>An optional string is true in a condition when it is present and not empty.\<close>

fun truthy :: "string option \<Rightarrow> bool" where
  "truthy None = False"
| "truthy (Some s) = (s \<noteq> [])"

text \<open>\<^verbatim>\<open>a or b\<close> on optional strings: \<open>a\<close> when it is true, \<open>b\<close> otherwise.\<close>

definition py_or :: "string option \<Rightarrow> string option \<Rightarrow> string option" where
  "py_or a b = (if truthy a then a else b)"

section \<open>The document tree\<close>

text \<open>
  An \<^verbatim>\<open>xml.etree.ElementTree.Element\<close>: tag, attribute dictionary, text and children.
  \<open>iter\<close> is \<^verbatim>\<open>Element.iter()\<close>: the element itself and then all of its
  descendants, in document order. \<open>get\<close> is \<^verbatim>\<open>Element.get(key)\<close>.
\<close>

datatype elem = Elem (tag: string) (attrib: "(string \<times> string) list")
  (etext: "string option") (children: "elem list")

fun iter :: "elem \<Rightarrow> elem list" where
  "iter (Elem t a x cs) = Elem t a x cs # concat (map iter cs)"

definition get :: "elem \<Rightarrow> string \<Rightarrow> string option" where
  "get e k = map_of (attrib e) k"

text \<open>
  The namespace stripping the analyzer repeats in every extractor:
  \<^verbatim>\<open>elem.tag.split('}')[-1] if '}' in elem.tag else elem.tag\<close>.
\<close>

definition local_name :: "string \<Rightarrow> string" where
  "local_name t = (if CHR 0x7D \<in> set t then last (split_on (CHR 0x7D) t) else t)"

text \<open>The expression \<^verbatim>\<open>e.get('Value') or e.text\<close>.\<close>

definition value_or_text :: "elem \<Rightarrow> string option" where
  "value_or_text e = py_or (get e ''Value'') (etext e)"

section \<open>Tracks\<close>

record track_info =
  track_type :: string
  track_id :: string
  attributes :: "(string \<times> string) list"
  name :: "string option"
  devices :: "string list"
  clips :: "string list"
  automation :: "string list"
  device_count :: nat

text \<open>The first loop of \<^verbatim>\<open>_extract_track_info\<close>, over \<^verbatim>\<open>track_elem.iter()\<close>.\<close>

fun track_name_loop :: "elem list \<Rightarrow> string option" where
  "track_name_loop [] = None"
| "track_name_loop (name_elem # rest) =
     (if py_in ''Name'' (tag name_elem) \<or> py_in ''UserName'' (tag name_elem) then
        (case value_or_text name_elem of
           None \<Rightarrow> track_name_loop rest
         | Some name_val \<Rightarrow>
             if name_val \<noteq> [] \<and> strip name_val \<noteq> [] then Some (strip name_val)
             else track_name_loop rest)
      else track_name_loop rest)"

text \<open>The second loop: the children of every chain element are counted.\<close>

definition device_count_step :: "elem \<Rightarrow> nat \<Rightarrow> nat" where
  "device_count_step child n =
     (if py_in ''DeviceChain'' (tag child) \<or> py_in ''Devices'' (tag child)
      then n + length (children child) else n)"

definition extract_track_info :: "elem \<Rightarrow> string \<Rightarrow> track_info" where
  "extract_track_info track_elem ty =
     \<lparr> track_type = ty,
       track_id = (case get track_elem ''Id'' of None \<Rightarrow> [] | Some i \<Rightarrow> i),
       attributes = attrib track_elem,
       name = track_name_loop (iter track_elem),
       devices = [], clips = [], automation = [],
       device_count = fold device_count_step (iter track_elem) 0 \<rparr>"

record tracks =
  audio_tracks :: "track_info list"
  midi_tracks :: "track_info list"
  return_tracks :: "track_info list"
  group_tracks :: "track_info list"
  master_track :: "track_info option"
  total_count :: nat

definition tracks_init :: tracks where
  "tracks_init = \<lparr> audio_tracks = [], midi_tracks = [], return_tracks = [],
     group_tracks = [], master_track = None, total_count = 0 \<rparr>"

text \<open>One pass of the loop body of \<^verbatim>\<open>_extract_tracks\<close>.\<close>

definition tracks_step :: "elem \<Rightarrow> tracks \<Rightarrow> tracks" where
  "tracks_step e tr =
     (let t = local_name (tag e) in
      if t = ''AudioTrack'' then
        tr\<lparr> audio_tracks := audio_tracks tr @ [extract_track_info e ''audio''],
            total_count := total_count tr + 1 \<rparr>
      else if t = ''MidiTrack'' then
        tr\<lparr> midi_tracks := midi_tracks tr @ [extract_track_info e ''midi''],
            total_count := total_count tr + 1 \<rparr>
      else if t = ''ReturnTrack'' then
        tr\<lparr> return_tracks := return_tracks tr @ [extract_track_info e ''return''],
            total_count := total_count tr + 1 \<rparr>
      else if t = ''GroupTrack'' then
        tr\<lparr> group_tracks := group_tracks tr @ [extract_track_info e ''group''],
            total_count := total_count tr + 1 \<rparr>
      else if t = ''MasterTrack'' then
        tr\<lparr> master_track := Some (extract_track_info e ''master'') \<rparr>
      else tr)"

definition extract_tracks :: "elem \<Rightarrow> tracks" where
  "extract_tracks doc = fold tracks_step (iter doc) tracks_init"

section \<open>Namespace qualification of a document\<close>

text \<open>
  \<open>qualify sel ns doc\<close> rewrites every tag \<open>t\<close> of the document that \<open>sel\<close> selects
  to its namespace-qualified form \<^verbatim>\<open>{ns}t\<close>, the way ElementTree spells a qualified tag.
\<close>

fun qualify :: "(string \<Rightarrow> bool) \<Rightarrow> string \<Rightarrow> elem \<Rightarrow> elem" where
  "qualify sel ns (Elem t a x cs) =
     Elem (if sel t then CHR 0x7B # ns @ CHR 0x7D # t else t) a x (map (qualify sel ns) cs)"

section \<open>Sample documents\<close>

definition leaf :: "string \<Rightarrow> (string \<times> string) list \<Rightarrow> elem" where
  "leaf t a = Elem t a None []"

definition doc_tracks :: elem where
  "doc_tracks = Elem ''Ableton'' [(''Creator'', ''Live'')] None
     [Elem ''LiveSet'' [] None
        [Elem ''Tracks'' [] None
           [Elem ''AudioTrack'' [(''Id'', ''1'')] None [leaf ''Name'' [(''Value'', '' Drums '')]],
            Elem ''MidiTrack'' [(''Id'', ''2'')] None [],
            Elem ''AudioTrack'' [(''Id'', ''3'')] None []],
         Elem ''MasterTrack'' [] None []]]"

section \<open>Metadata and structure\<close>

record metadata =
  root_tag :: string
  root_attributes :: "(string \<times> string) list"
  ableton_version :: string
  major_version :: string
  minor_version :: string
  liveset_attributes :: "(string \<times> string) list option"

text \<open>\<^verbatim>\<open>Element.get(key, default)\<close>.\<close>

definition get_default :: "elem \<Rightarrow> string \<Rightarrow> string \<Rightarrow> string" where
  "get_default e k d = (case get e k of None \<Rightarrow> d | Some v \<Rightarrow> v)"

definition extract_metadata :: "elem \<Rightarrow> metadata" where
  "extract_metadata doc =
     \<lparr> root_tag = tag doc,
       root_attributes = attrib doc,
       ableton_version = get_default doc ''Creator'' ''Unknown'',
       major_version = get_default doc ''MajorVersion'' ''Unknown'',
       minor_version = get_default doc ''MinorVersion'' ''Unknown'',
       liveset_attributes =
         map_option attrib (find (\<lambda>e. py_in ''LiveSet'' (tag e)) (children doc)) \<rparr>"

record "structure" =
  top_level_elements :: "string list"
  element_counts :: "string \<rightharpoonup> nat"
  max_depth :: nat
  total_elements :: nat

definition structure_init :: "structure" where
  "structure_init = \<lparr> top_level_elements = [], element_counts = Map.empty,
     max_depth = 0, total_elements = 0 \<rparr>"

text \<open>
  The three updates \<^verbatim>\<open>count_elements\<close> makes for the element it is called on, before
  it descends into the children.
\<close>

definition count_visit :: "string \<Rightarrow> nat \<Rightarrow> structure \<Rightarrow> structure" where
  "count_visit t depth st =
     st\<lparr> max_depth := max (max_depth st) depth,
         total_elements := total_elements st + 1,
         element_counts := (element_counts st)
           (local_name t \<mapsto> (case element_counts st (local_name t) of None \<Rightarrow> 0 | Some n \<Rightarrow> n) + 1) \<rparr>"

text \<open>
  \<^verbatim>\<open>count_elements\<close> is a nested function that calls itself once for every child, so a
  call at depth \<open>d\<close> runs with \<open>d\<close> of its own frames on the interpreter's call stack.
  The interpreter bounds the stack: \<open>budget\<close> is the number of nested calls of
  \<^verbatim>\<open>count_elements\<close> it still allows when the traversal starts, and the call that
  would exceed it raises RecursionError, here the result \<open>None\<close>.
\<close>

fun count_elements :: "nat \<Rightarrow> elem \<Rightarrow> nat \<Rightarrow> structure \<Rightarrow> structure option"
  and count_children :: "nat \<Rightarrow> elem list \<Rightarrow> nat \<Rightarrow> structure \<Rightarrow> structure option" where
  "count_elements budget (Elem t a x cs) depth st =
     (if budget < depth then None
      else count_children budget cs (depth + 1) (count_visit t depth st))"
| "count_children budget [] depth st = Some st"
| "count_children budget (child # rest) depth st =
     (case count_elements budget child depth st of
        None \<Rightarrow> None
      | Some st' \<Rightarrow> count_children budget rest depth st')"

text \<open>The loop of \<^verbatim>\<open>_analyze_structure\<close> over the children of the root.\<close>

fun top_level_loop :: "nat \<Rightarrow> elem list \<Rightarrow> structure \<Rightarrow> structure option" where
  "top_level_loop budget [] st = Some st"
| "top_level_loop budget (child # rest) st =
     (case count_elements budget child 1
             (st\<lparr> top_level_elements := top_level_elements st @ [local_name (tag child)] \<rparr>) of
        None \<Rightarrow> None
      | Some st' \<Rightarrow> top_level_loop budget rest st')"

definition analyze_structure :: "nat \<Rightarrow> elem \<Rightarrow> structure option" where
  "analyze_structure budget doc = top_level_loop budget (children doc) structure_init"

section \<open>Devices and plugins\<close>

record devices =
  device_types :: "string list"
  device_names :: "string list"
  devices_device_count :: nat
  by_category :: "(string \<times> string) list"

text \<open>
  The state of the loop of \<^verbatim>\<open>_extract_devices\<close>: the set of device types, the names
  and the count.
\<close>

record devices_acc =
  acc_types :: "string set"
  acc_names :: "string list"
  acc_count :: nat

text \<open>
  The inner loop: the first element of \<^verbatim>\<open>elem.iter()\<close> whose tag contains UserName and
  whose \<^verbatim>\<open>Value\<close> is true gives the name and ends the loop.
\<close>

fun device_name_loop :: "elem list \<Rightarrow> string option" where
  "device_name_loop [] = None"
| "device_name_loop (name_elem # rest) =
     (if py_in ''UserName'' (tag name_elem) then
        (if truthy (get name_elem ''Value'') then get name_elem ''Value''
         else device_name_loop rest)
      else device_name_loop rest)"

definition devices_step :: "elem \<Rightarrow> devices_acc \<Rightarrow> devices_acc" where
  "devices_step e d =
     (let t = local_name (tag e) in
      if py_in ''Device'' t \<and> t \<noteq> ''DeviceChain'' then
        d\<lparr> acc_types := insert t (acc_types d),
           acc_count := acc_count d + 1,
           acc_names := acc_names d @
             (case device_name_loop (iter e) of None \<Rightarrow> [] | Some n \<Rightarrow> [n]) \<rparr>
      else d)"

definition extract_devices :: "elem \<Rightarrow> devices" where
  "extract_devices doc =
     (let d = fold devices_step (iter doc) \<lparr> acc_types = {}, acc_names = [], acc_count = 0 \<rparr>
      in \<lparr> device_types = sorted_list_of_set (acc_types d),
           device_names = acc_names d,
           devices_device_count = acc_count d,
           by_category = [] \<rparr>)"

record plugins =
  vst_plugins :: "string list"
  au_plugins :: "string list"
  plugin_paths :: "string list"
  plugin_count :: nat

definition plugin_path_step :: "elem \<Rightarrow> plugins \<Rightarrow> plugins" where
  "plugin_path_step path_elem p =
     (if py_in ''Path'' (tag path_elem) then
        (case get path_elem ''Value'' of
           None \<Rightarrow> p
         | Some path_val \<Rightarrow>
             if path_val = [] then p
             else
               (let p' = p\<lparr> plugin_paths := plugin_paths p @ [path_val] \<rparr> in
                if py_in ''.vst'' (lower path_val) \<or> py_in ''.dll'' (lower path_val) then
                  p'\<lparr> vst_plugins := vst_plugins p' @ [path_val] \<rparr>
                else if py_in ''.component'' (lower path_val) \<or> py_in ''.au'' (lower path_val) then
                  p'\<lparr> au_plugins := au_plugins p' @ [path_val] \<rparr>
                else p'))
      else p)"

definition is_plugin_tag :: "string \<Rightarrow> bool" where
  "is_plugin_tag t = (py_in ''PluginDevice'' t \<or> py_in ''VstPlugin'' t \<or> py_in ''AuPlugin'' t)"

definition plugins_step :: "elem \<Rightarrow> plugins \<Rightarrow> plugins" where
  "plugins_step e p =
     (if is_plugin_tag (local_name (tag e)) then
        fold plugin_path_step (iter e) (p\<lparr> plugin_count := plugin_count p + 1 \<rparr>)
      else p)"

definition extract_plugins :: "elem \<Rightarrow> plugins" where
  "extract_plugins doc = fold plugins_step (iter doc)
     \<lparr> vst_plugins = [], au_plugins = [], plugin_paths = [], plugin_count = 0 \<rparr>"

section \<open>Samples, clips and automation\<close>

record samples =
  sample_paths :: "string list"
  sample_count :: nat
  relative_paths :: "string list"
  absolute_paths :: "string list"

definition sample_child_step :: "elem \<Rightarrow> samples \<Rightarrow> samples" where
  "sample_child_step child s =
     (if py_in ''Path'' (tag child) \<or> py_in ''RelativePath'' (tag child) then
        (case value_or_text child of
           None \<Rightarrow> s
         | Some path_val \<Rightarrow>
             if path_val = [] then s
             else
               (let s' = s\<lparr> sample_paths := sample_paths s @ [path_val],
                            sample_count := sample_count s + 1 \<rparr> in
                if prefix ''/'' path_val \<or> py_in '':'' path_val then
                  s'\<lparr> absolute_paths := absolute_paths s' @ [path_val] \<rparr>
                else s'\<lparr> relative_paths := relative_paths s' @ [path_val] \<rparr>))
      else s)"

definition samples_step :: "elem \<Rightarrow> samples \<Rightarrow> samples" where
  "samples_step e s =
     (let t = local_name (tag e) in
      if py_in ''FileRef'' t \<or> py_in ''SampleRef'' t \<or> py_in ''OriginalFileRef'' t then
        fold sample_child_step (children e) s
      else s)"

definition extract_samples :: "elem \<Rightarrow> samples" where
  "extract_samples doc = fold samples_step (iter doc)
     \<lparr> sample_paths = [], sample_count = 0, relative_paths = [], absolute_paths = [] \<rparr>"

record clips_info =
  audio_clips :: nat
  midi_clips :: nat
  clip_names :: "string list"
  clip_count :: nat

fun clip_name_loop :: "elem list \<Rightarrow> string option" where
  "clip_name_loop [] = None"
| "clip_name_loop (name_elem # rest) =
     (if py_in ''Name'' (tag name_elem) then
        (case value_or_text name_elem of
           None \<Rightarrow> clip_name_loop rest
         | Some nm \<Rightarrow>
             if nm \<noteq> [] \<and> strip nm \<noteq> [] then Some (strip nm) else clip_name_loop rest)
      else clip_name_loop rest)"

definition clips_step :: "elem \<Rightarrow> clips_info \<Rightarrow> clips_info" where
  "clips_step e c =
     (let t = local_name (tag e);
          c1 = (if py_in ''AudioClip'' t then
                  c\<lparr> audio_clips := audio_clips c + 1, clip_count := clip_count c + 1 \<rparr>
                else if py_in ''MidiClip'' t then
                  c\<lparr> midi_clips := midi_clips c + 1, clip_count := clip_count c + 1 \<rparr>
                else c)
      in if py_in ''Clip'' t then
           c1\<lparr> clip_names := clip_names c1 @
                 (case clip_name_loop (iter e) of None \<Rightarrow> [] | Some n \<Rightarrow> [n]) \<rparr>
         else c1)"

definition extract_clips :: "elem \<Rightarrow> clips_info" where
  "extract_clips doc = fold clips_step (iter doc)
     \<lparr> audio_clips = 0, midi_clips = 0, clip_names = [], clip_count = 0 \<rparr>"

record automation_info =
  has_automation :: bool
  automation_lanes :: nat
  automation_points :: nat

definition automation_step :: "elem \<Rightarrow> automation_info \<Rightarrow> automation_info" where
  "automation_step e a =
     (let t = local_name (tag e);
          a1 = (if py_in ''Automation'' t then a\<lparr> has_automation := True \<rparr> else a);
          a2 = (if py_in ''AutomationLane'' t
                then a1\<lparr> automation_lanes := automation_lanes a1 + 1 \<rparr> else a1)
      in if py_in ''AutomationPoint'' t
         then a2\<lparr> automation_points := automation_points a2 + 1 \<rparr> else a2)"

definition extract_automation :: "elem \<Rightarrow> automation_info" where
  "extract_automation doc = fold automation_step (iter doc)
     \<lparr> has_automation = False, automation_lanes = 0, automation_points = 0 \<rparr>"

section \<open>Export, backup, project and timing information\<close>

record export_log =
  log_tag :: string
  log_attributes :: "(string \<times> string) list"
  log_children :: "string \<rightharpoonup> string option"

record export_info =
  export_logs :: "export_log list"
  render_settings :: "string \<rightharpoonup> string"
  export_directory :: "string option"
  export_count :: nat

definition render_child_step :: "elem \<Rightarrow> export_info \<Rightarrow> export_info" where
  "render_child_step child x =
     (let key = local_name (tag child) in
      case value_or_text child of
        None \<Rightarrow> x
      | Some v \<Rightarrow>
          if v = [] then x
          else
            (let x' = x\<lparr> render_settings := (render_settings x)(key \<mapsto> v) \<rparr> in
             if py_in ''path'' (lower key) \<or> py_in ''dir'' (lower key) \<or> py_in ''folder'' (lower key)
             then x'\<lparr> export_directory := Some v \<rparr> else x'))"

definition export_step :: "elem \<Rightarrow> export_info \<Rightarrow> export_info" where
  "export_step e x =
     (let tag_lower = lower (tag e);
          x1 = (if py_in ''exportlog'' tag_lower \<or> py_in ''exporthistory'' tag_lower then
                  x\<lparr> export_logs := export_logs x @
                        [\<lparr> log_tag = tag e, log_attributes = attrib e,
                           log_children =
                             fold (\<lambda>child m. m(tag child \<mapsto> value_or_text child))
                               (children e) Map.empty \<rparr>],
                      export_count := export_count x + 1 \<rparr>
                else x)
      in if py_in ''audiorendersettings'' tag_lower \<or> py_in ''rendersettings'' tag_lower
         then fold render_child_step (children e) x1 else x1)"

definition extract_export_info :: "elem \<Rightarrow> export_info" where
  "extract_export_info doc = fold export_step (iter doc)
     \<lparr> export_logs = [], render_settings = Map.empty, export_directory = None,
       export_count = 0 \<rparr>"

record backup_reference =
  ref_tag :: string
  ref_attributes :: "(string \<times> string) list"
  ref_text :: "string option"

record backup_info =
  backup_references :: "backup_reference list"
  backup_count :: nat

definition backup_step :: "elem \<Rightarrow> backup_info \<Rightarrow> backup_info" where
  "backup_step e b =
     (if py_in ''backup'' (lower (tag e)) then
        b\<lparr> backup_references := backup_references b @
              [\<lparr> ref_tag = tag e, ref_attributes = attrib e, ref_text = etext e \<rparr>],
            backup_count := backup_count b + 1 \<rparr>
      else b)"

definition extract_backup_info :: "elem \<Rightarrow> backup_info" where
  "extract_backup_info doc = fold backup_step (iter doc)
     \<lparr> backup_references = [], backup_count = 0 \<rparr>"

text \<open>
  \<^verbatim>\<open>elem.find('.//NAME')\<close>: the first proper descendant, in document order, whose tag is
  exactly the given name.
\<close>

definition find_descendant :: "string \<Rightarrow> elem \<Rightarrow> elem option" where
  "find_descendant nm e = find (\<lambda>d. tag d = nm) (concat (map iter (children e)))"

text \<open>
  Tempo values are floats in the source; the model takes them as real numbers, and
  \<open>pyfloat\<close> stands for the builtin \<^verbatim>\<open>float(s)\<close>, with \<open>None\<close> for its ValueError.
\<close>

record project_info =
  project_name :: "string option"
  annotation :: "string option"
  tempo :: "real option"
  time_signature :: "string option"
  project_arrangement_length :: "real option"
  scenes :: "string list"
  scene_count :: nat

definition tempo_step :: "(string \<Rightarrow> real option) \<Rightarrow> elem \<Rightarrow> project_info \<Rightarrow> project_info" where
  "tempo_step pyfloat e p =
     (if py_in ''Tempo'' (tag e) then
        (case find_descendant ''Manual'' e of
           None \<Rightarrow> p
         | Some manual \<Rightarrow>
             (case get manual ''Value'' of
                None \<Rightarrow> p
              | Some tempo_val \<Rightarrow>
                  if tempo_val = [] then p
                  else (case pyfloat tempo_val of
                          None \<Rightarrow> p
                        | Some f \<Rightarrow> p\<lparr> tempo := Some f \<rparr>)))
      else p)"

definition time_signature_step :: "elem \<Rightarrow> project_info \<Rightarrow> project_info" where
  "time_signature_step e p =
     (if py_in ''TimeSignature'' (tag e) then
        (case (find_descendant ''Numerator'' e, find_descendant ''Denominator'' e) of
           (Some numerator, Some denominator) \<Rightarrow>
             p\<lparr> time_signature :=
                  Some (get_default numerator ''Value'' ''4'' @ ''/'' @
                        get_default denominator ''Value'' ''4'') \<rparr>
         | _ \<Rightarrow> p)
      else p)"

definition annotation_step :: "elem \<Rightarrow> project_info \<Rightarrow> project_info" where
  "annotation_step e p =
     (if py_in ''Annotation'' (tag e) then
        (if truthy (value_or_text e) then p\<lparr> annotation := value_or_text e \<rparr> else p)
      else p)"

text \<open>
  The inner loop of the scene extraction stops at the first element whose tag contains
  Name, whatever its value.
\<close>

fun scene_name_loop :: "elem list \<Rightarrow> string option" where
  "scene_name_loop [] = None"
| "scene_name_loop (name_elem # rest) =
     (if py_in ''Name'' (tag name_elem) then value_or_text name_elem
      else scene_name_loop rest)"

definition scene_step :: "elem \<Rightarrow> project_info \<Rightarrow> project_info" where
  "scene_step e p =
     (if py_in ''Scene'' (tag e) then
        (let p' = p\<lparr> scene_count := scene_count p + 1 \<rparr> in
         case scene_name_loop (iter e) of
           None \<Rightarrow> p'
         | Some scene_name \<Rightarrow>
             if scene_name = [] then p' else p'\<lparr> scenes := scenes p' @ [scene_name] \<rparr>)
      else p)"

definition extract_project_info :: "(string \<Rightarrow> real option) \<Rightarrow> elem \<Rightarrow> project_info" where
  "extract_project_info pyfloat doc =
     fold scene_step (iter doc)
       (fold annotation_step (iter doc)
          (fold time_signature_step (iter doc)
             (fold (tempo_step pyfloat) (iter doc)
                \<lparr> project_name = None, annotation = None, tempo = None,
                  time_signature = None, project_arrangement_length = None,
                  scenes = [], scene_count = 0 \<rparr>)))"

record timing_info =
  arrangement_length :: "real option"
  loop_start :: "string option"
  loop_end :: "string option"
  start_marker :: "string option"
  end_marker :: "string option"

definition timing_step :: "(string \<Rightarrow> real option) \<Rightarrow> elem \<Rightarrow> timing_info \<Rightarrow> timing_info" where
  "timing_step pyfloat e t =
     (let tg = local_name (tag e);
          t1 = (if py_in ''ArrangementLength'' tg then
                  (case get e ''Value'' of
                     None \<Rightarrow> t
                   | Some len \<Rightarrow>
                       if len = [] then t
                       else (case pyfloat len of
                               None \<Rightarrow> t
                             | Some f \<Rightarrow> t\<lparr> arrangement_length := Some f \<rparr>))
                else t);
          t2 = (if py_in ''LoopStart'' tg then t1\<lparr> loop_start := get e ''Value'' \<rparr> else t1);
          t3 = (if py_in ''LoopEnd'' tg then t2\<lparr> loop_end := get e ''Value'' \<rparr> else t2);
          t4 = (if py_in ''StartMarker'' tg then t3\<lparr> start_marker := get e ''Value'' \<rparr> else t3)
      in if py_in ''EndMarker'' tg then t4\<lparr> end_marker := get e ''Value'' \<rparr> else t4)"

definition extract_timing_info :: "(string \<Rightarrow> real option) \<Rightarrow> elem \<Rightarrow> timing_info" where
  "extract_timing_info pyfloat doc = fold (timing_step pyfloat) (iter doc)
     \<lparr> arrangement_length = None, loop_start = None, loop_end = None,
       start_marker = None, end_marker = None \<rparr>"

section \<open>File references and preferences\<close>

record file_refs =
  all_paths :: "string list"
  refs_absolute_paths :: "string list"
  refs_relative_paths :: "string list"
  file_types :: "string \<rightharpoonup> nat"

text \<open>\<open>path_suffix\<close> stands for \<^verbatim>\<open>Path(s).suffix\<close> of the path library.\<close>

definition file_ref_child_step :: "(string \<Rightarrow> string) \<Rightarrow> elem \<Rightarrow> file_refs \<Rightarrow> file_refs" where
  "file_ref_child_step path_suffix child r =
     (if py_in ''Path'' (tag child) \<or> py_in ''FileRef'' (tag child)
         \<or> py_in ''RelativePath'' (tag child) then
        (case value_or_text child of
           None \<Rightarrow> r
         | Some path_val \<Rightarrow>
             if path_val = [] \<or> strip path_val = [] then r
             else
               (let r1 = r\<lparr> all_paths := all_paths r @ [path_val] \<rparr>;
                    r2 = (if prefix ''/'' path_val
                             \<or> (1 < length path_val \<and> path_val ! 1 = CHR '':'')
                          then r1\<lparr> refs_absolute_paths := refs_absolute_paths r1 @ [path_val] \<rparr>
                          else r1\<lparr> refs_relative_paths := refs_relative_paths r1 @ [path_val] \<rparr>);
                    ext = lower (path_suffix path_val)
                in if ext = [] then r2
                   else r2\<lparr> file_types := (file_types r2)
                          (ext \<mapsto> (case file_types r2 ext of None \<Rightarrow> 0 | Some n \<Rightarrow> n) + 1) \<rparr>))
      else r)"

definition extract_file_references :: "(string \<Rightarrow> string) \<Rightarrow> elem \<Rightarrow> file_refs" where
  "extract_file_references path_suffix doc =
     fold (\<lambda>e r. fold (file_ref_child_step path_suffix) (children e) r) (iter doc)
       \<lparr> all_paths = [], refs_absolute_paths = [], refs_relative_paths = [],
         file_types = Map.empty \<rparr>"

datatype pref_value = PrefStr string | PrefAttrib "(string \<times> string) list"

record preferences =
  settings :: "string \<rightharpoonup> pref_value"
  prefs :: "string \<rightharpoonup> pref_value"

definition preferences_step :: "elem \<Rightarrow> preferences \<Rightarrow> preferences" where
  "preferences_step e p =
     (let tg = local_name (tag e) in
      if py_in ''Settings'' tg \<or> py_in ''Preference'' tg then
        (let v = (case value_or_text e of
                    None \<Rightarrow> PrefAttrib (attrib e)
                  | Some s \<Rightarrow> if s = [] then PrefAttrib (attrib e) else PrefStr s)
         in if py_in ''Settings'' tg then p\<lparr> settings := (settings p)(tg \<mapsto> v) \<rparr>
            else p\<lparr> prefs := (prefs p)(tg \<mapsto> v) \<rparr>)
      else p)"

definition extract_preferences :: "elem \<Rightarrow> preferences" where
  "extract_preferences doc = fold preferences_step (iter doc)
     \<lparr> settings = Map.empty, prefs = Map.empty \<rparr>"

section \<open>Analysis of one file\<close>

text \<open>
  A Python exception, by its class name and the text \<^verbatim>\<open>str(e)\<close>; the outcome of a
  call that either returns a value or raises.
\<close>

datatype exn = Exn (exc_class: string) (exc_str: string)

datatype 'a outcome = Returns (returned: 'a) | Raises (raised: exn)

text \<open>
  What the analyzer takes from the interpreter, its libraries and the file system. Paths
  are strings; \<open>parent\<close>, \<open>path_name\<close>, \<open>path_suffix\<close> and \<open>joinpath\<close> are the
  operations of the path library, \<open>glob_als\<close> and \<open>rglob_als\<close> list the
  \<^verbatim>\<open>*.als\<close> files of a directory and of its whole subtree. \<open>gzip_read\<close> is
  \<^verbatim>\<open>gzip.open(path, 'rb').read()\<close> and \<open>fromstring\<close> is \<^verbatim>\<open>ET.fromstring\<close>, each with
  the exception it raises on the left. \<open>call_budget\<close> is the number of nested calls the
  structure traversal may make before the interpreter raises \<open>recursion_error\<close>.

  The calls \<^verbatim>\<open>exists()\<close> and \<^verbatim>\<open>stat()\<close> can raise as well (a name that is too long,
  a directory that may not be searched): \<open>exists_raises\<close> and \<open>stat_raises\<close> give the
  exception of the call on a path, if it raises, and \<open>path_exists\<close>, \<open>st_size\<close> and
  \<open>st_mtime\<close> its result otherwise. \<open>isoformat\<close> is
  \<^verbatim>\<open>datetime.fromtimestamp(t).isoformat()\<close>, which raises on a time stamp out of range.
  The exceptions are instances of \<^verbatim>\<open>Exception\<close>; interrupts from outside the program
  are not modelled. Project discovery and backup discovery are modelled on a file system
  whose listing and status calls succeed.
\<close>

record env =
  exists_raises :: "string \<Rightarrow> exn option"
  path_exists :: "string \<Rightarrow> bool"
  path_is_file :: "string \<Rightarrow> bool"
  stat_raises :: "string \<Rightarrow> exn option"
  st_size :: "string \<Rightarrow> nat"
  st_mtime :: "string \<Rightarrow> real"
  parent :: "string \<Rightarrow> string"
  path_name :: "string \<Rightarrow> string"
  path_suffix :: "string \<Rightarrow> string"
  joinpath :: "string \<Rightarrow> string \<Rightarrow> string"
  glob_als :: "string \<Rightarrow> string list"
  rglob_als :: "string \<Rightarrow> string list"
  gzip_read :: "string \<Rightarrow> exn + string"
  fromstring :: "string \<Rightarrow> exn + elem"
  pyfloat :: "string \<Rightarrow> real option"
  isoformat :: "real \<Rightarrow> exn + string"
  format_exc :: "exn \<Rightarrow> string"
  call_budget :: nat
  recursion_error :: exn

record extractable_data =
  data_tracks :: tracks
  data_devices :: devices
  data_plugins :: plugins
  data_samples :: samples
  data_clips :: clips_info
  data_automation :: automation_info
  data_export_info :: export_info
  data_backup_info :: backup_info
  data_project_info :: project_info
  data_timing_info :: timing_info
  data_file_references :: file_refs
  data_preferences :: preferences

definition extract_all :: "env \<Rightarrow> elem \<Rightarrow> extractable_data" where
  "extract_all ev doc =
     \<lparr> data_tracks = extract_tracks doc,
       data_devices = extract_devices doc,
       data_plugins = extract_plugins doc,
       data_samples = extract_samples doc,
       data_clips = extract_clips doc,
       data_automation = extract_automation doc,
       data_export_info = extract_export_info doc,
       data_backup_info = extract_backup_info doc,
       data_project_info = extract_project_info (pyfloat ev) doc,
       data_timing_info = extract_timing_info (pyfloat ev) doc,
       data_file_references = extract_file_references (path_suffix ev) doc,
       data_preferences = extract_preferences doc \<rparr>"

text \<open>
  The result dictionary of \<^verbatim>\<open>analyze_file\<close>. The entries that start as an empty
  dictionary are optional here, \<open>None\<close> for the empty dictionary; \<open>error\<close> and
  \<open>traceback\<close> are \<open>None\<close> while the keys are not set.
\<close>

record analysis =
  file_path :: string
  file_size :: nat
  modified_date :: "string option"
  elements :: "(string \<times> string) list"
  file_metadata :: "metadata option"
  file_structure :: "structure option"
  file_data :: "extractable_data option"
  error :: "string option"
  traceback :: "string option"

text \<open>The handler \<^verbatim>\<open>except Exception as e\<close>.\<close>

definition caught :: "env \<Rightarrow> exn \<Rightarrow> analysis \<Rightarrow> analysis" where
  "caught ev e result = result\<lparr> error := Some (exc_str e), traceback := Some (format_exc ev e) \<rparr>"

text \<open>
  The statements of \<^verbatim>\<open>analyze_file\<close> that build the result dictionary. They stand before
  the \<^verbatim>\<open>try\<close> block, so an exception of \<^verbatim>\<open>exists()\<close>, of \<^verbatim>\<open>stat()\<close> or of the
  conversion of the time stamp leaves \<^verbatim>\<open>analyze_file\<close>. The file system does not change
  between the two entries, so the second \<^verbatim>\<open>exists()\<close> and \<^verbatim>\<open>stat()\<close> repeat the first.
\<close>

definition initial_result :: "env \<Rightarrow> string \<Rightarrow> analysis outcome" where
  "initial_result ev als_path =
     (case exists_raises ev als_path of
        Some e \<Rightarrow> Raises e
      | None \<Rightarrow>
          if path_exists ev als_path then
            (case stat_raises ev als_path of
               Some e \<Rightarrow> Raises e
             | None \<Rightarrow>
                 (case isoformat ev (st_mtime ev als_path) of
                    Inl e \<Rightarrow> Raises e
                  | Inr stamp \<Rightarrow>
                      Returns
                        \<lparr> file_path = als_path, file_size = st_size ev als_path,
                          modified_date = Some stamp,
                          elements = [], file_metadata = None, file_structure = None,
                          file_data = None, error = None, traceback = None \<rparr>))
          else
            Returns
              \<lparr> file_path = als_path, file_size = 0, modified_date = None,
                elements = [], file_metadata = None, file_structure = None,
                file_data = None, error = None, traceback = None \<rparr>)"

text \<open>
  \<^verbatim>\<open>analyze_file\<close>: the result dictionary, then the \<^verbatim>\<open>try\<close> block, whose handler
  catches every \<^verbatim>\<open>Exception\<close> raised by decompression, parsing and extraction. The set
  of tags the analyzer object collects on the way is read by no operation and is left out.
\<close>

definition analyze_file :: "env \<Rightarrow> string \<Rightarrow> analysis outcome" where
  "analyze_file ev als_path =
     (case initial_result ev als_path of
        Raises e \<Rightarrow> Raises e
      | Returns result \<Rightarrow>
          Returns
            (case gzip_read ev als_path of
               Inl e \<Rightarrow> caught ev e result
             | Inr xml_data \<Rightarrow>
                 (case fromstring ev xml_data of
                    Inl e \<Rightarrow> caught ev e result
                  | Inr doc \<Rightarrow>
                      (let result1 = result\<lparr> file_metadata := Some (extract_metadata doc) \<rparr> in
                       case analyze_structure (call_budget ev) doc of
                         None \<Rightarrow> caught ev (recursion_error ev) result1
                       | Some st \<Rightarrow>
                           result1\<lparr> file_structure := Some st,
                                    file_data := Some (extract_all ev doc) \<rparr>))))"

text \<open>
  The exception that the handler of \<^verbatim>\<open>analyze_file\<close> catches on a path, if any, and the
  document, if decompression and parsing succeed.
\<close>

definition caught_exception :: "env \<Rightarrow> string \<Rightarrow> exn option" where
  "caught_exception ev als_path =
     (case gzip_read ev als_path of
        Inl e \<Rightarrow> Some e
      | Inr xml_data \<Rightarrow>
          (case fromstring ev xml_data of
             Inl e \<Rightarrow> Some e
           | Inr doc \<Rightarrow>
               (case analyze_structure (call_budget ev) doc of
                  None \<Rightarrow> Some (recursion_error ev)
                | Some st \<Rightarrow> None)))"

definition parsed_document :: "env \<Rightarrow> string \<Rightarrow> elem option" where
  "parsed_document ev als_path =
     (case gzip_read ev als_path of
        Inl e \<Rightarrow> None
      | Inr xml_data \<Rightarrow> (case fromstring ev xml_data of Inl e \<Rightarrow> None | Inr doc \<Rightarrow> Some doc))"

section \<open>Backup discovery\<close>

definition is_backup_name :: "string \<Rightarrow> bool" where
  "is_backup_name nm = (py_in ''backup'' (lower nm) \<or> py_in ''['' nm)"

definition backup_candidates :: "env \<Rightarrow> string \<Rightarrow> string list" where
  "backup_candidates ev project_path =
     (let project_dir = (if path_is_file ev project_path then parent ev project_path
                         else project_path);
          backup_dir = joinpath ev project_dir ''Backup'';
          backups = (if path_exists ev backup_dir then glob_als ev backup_dir else [])
      in fold (\<lambda>als_file bs.
                 if is_backup_name (path_name ev als_file) \<and> als_file \<notin> set bs
                 then bs @ [als_file] else bs)
           (rglob_als ev project_dir) backups)"

text \<open>
  \<^verbatim>\<open>sorted(backups, key=lambda p: p.stat().st_mtime, reverse=True)\<close>: a stable sort,
  descending in the key, which is the stable ascending sort by the negated key.
\<close>

definition find_backup_files :: "env \<Rightarrow> string \<Rightarrow> string list" where
  "find_backup_files ev project_path =
     sort_key (\<lambda>p. - st_mtime ev p) (backup_candidates ev project_path)"

section \<open>Comparison of a file with its backups\<close>

record count_change =
  change_backup :: string
  change_count :: nat
  change_main :: nat

record tempo_change =
  tempo_backup :: string
  tempo_value :: real
  tempo_main :: real

record comparison =
  version_changes :: "string list"
  track_changes :: "count_change list"
  device_changes :: "count_change list"
  plugin_changes :: "count_change list"
  timing_changes :: "tempo_change list"

text \<open>The chained \<^verbatim>\<open>get\<close> calls with their defaults.\<close>

definition tracks_of :: "analysis \<Rightarrow> nat" where
  "tracks_of a = (case file_data a of None \<Rightarrow> 0 | Some d \<Rightarrow> total_count (data_tracks d))"

definition devices_of :: "analysis \<Rightarrow> nat" where
  "devices_of a =
     (case file_data a of None \<Rightarrow> 0 | Some d \<Rightarrow> devices_device_count (data_devices d))"

definition plugins_of :: "analysis \<Rightarrow> nat" where
  "plugins_of a = (case file_data a of None \<Rightarrow> 0 | Some d \<Rightarrow> plugin_count (data_plugins d))"

definition tempo_of :: "analysis \<Rightarrow> real option" where
  "tempo_of a = (case file_data a of None \<Rightarrow> None | Some d \<Rightarrow> tempo (data_project_info d))"

text \<open>The truth value of an optional float in a condition: present and not zero.\<close>

fun float_truthy :: "real option \<Rightarrow> bool" where
  "float_truthy None = False"
| "float_truthy (Some x) = (x \<noteq> 0)"

definition compare_step :: "analysis \<Rightarrow> analysis \<Rightarrow> comparison \<Rightarrow> comparison" where
  "compare_step main backup c =
     (let c1 = (if tracks_of backup \<noteq> tracks_of main then
                  c\<lparr> track_changes := track_changes c @
                       [\<lparr> change_backup = file_path backup, change_count = tracks_of backup,
                          change_main = tracks_of main \<rparr>] \<rparr>
                else c);
          c2 = (if devices_of backup \<noteq> devices_of main then
                  c1\<lparr> device_changes := device_changes c1 @
                       [\<lparr> change_backup = file_path backup, change_count = devices_of backup,
                          change_main = devices_of main \<rparr>] \<rparr>
                else c1);
          c3 = (if plugins_of backup \<noteq> plugins_of main then
                  c2\<lparr> plugin_changes := plugin_changes c2 @
                       [\<lparr> change_backup = file_path backup, change_count = plugins_of backup,
                          change_main = plugins_of main \<rparr>] \<rparr>
                else c2)
      in case (tempo_of backup, tempo_of main) of
           (Some backup_tempo, Some main_tempo) \<Rightarrow>
             if float_truthy (Some backup_tempo) \<and> float_truthy (Some main_tempo)
                \<and> \<bar>backup_tempo - main_tempo\<bar> > 1 / 10
             then c3\<lparr> timing_changes := timing_changes c3 @
                       [\<lparr> tempo_backup = file_path backup, tempo_value = backup_tempo,
                          tempo_main = main_tempo \<rparr>] \<rparr>
             else c3
         | _ \<Rightarrow> c3)"

definition compare_files :: "analysis \<Rightarrow> analysis list \<Rightarrow> comparison" where
  "compare_files main backups = fold (compare_step main) backups
     \<lparr> version_changes = [], track_changes = [], device_changes = [],
       plugin_changes = [], timing_changes = [] \<rparr>"

section \<open>Analysis of a project\<close>

record project_results =
  project_folder :: string
  main_file :: "string option"
  backup_files :: "string list"
  main_analysis :: "analysis option"
  backup_analyses :: "analysis list"
  project_comparison :: "comparison option"

text \<open>The loop that analyses the backups, in the order backup discovery returned them.\<close>

fun analyze_backups :: "env \<Rightarrow> string list \<Rightarrow> analysis list outcome" where
  "analyze_backups ev [] = Returns []"
| "analyze_backups ev (b # bs) =
     (case analyze_file ev b of
        Raises e \<Rightarrow> Raises e
      | Returns a \<Rightarrow>
          (case analyze_backups ev bs of
             Raises e \<Rightarrow> Raises e
           | Returns as \<Rightarrow> Returns (a # as)))"

text \<open>
  \<^verbatim>\<open>analyze_project\<close>; \<open>main0\<close> is the main file the analyzer object holds when the
  call starts (\<open>None\<close> on a fresh analyzer).
\<close>

definition choose_main :: "env \<Rightarrow> string option \<Rightarrow> string \<Rightarrow> string \<times> string option" where
  "choose_main ev main0 project_path =
     (if path_is_file ev project_path \<and> lower (path_suffix ev project_path) = ''.als''
      then (parent ev project_path, Some project_path)
      else
        (let project_dir = project_path;
             main_als = joinpath ev project_dir (path_name ev project_dir @ ''.als'')
         in if path_exists ev main_als then (project_dir, Some main_als)
            else (case glob_als ev project_dir of
                    [] \<Rightarrow> (project_dir, main0)
                  | f # fs \<Rightarrow> (project_dir, Some f))))"

definition analyze_main :: "env \<Rightarrow> string option \<Rightarrow> analysis option outcome" where
  "analyze_main ev m =
     (case m of
        None \<Rightarrow> Returns None
      | Some f \<Rightarrow>
          (case exists_raises ev f of
             Some e \<Rightarrow> Raises e
           | None \<Rightarrow>
               if path_exists ev f then
                 (case analyze_file ev f of Raises e \<Rightarrow> Raises e | Returns a \<Rightarrow> Returns (Some a))
               else Returns None))"

definition analyze_project :: "env \<Rightarrow> string option \<Rightarrow> string \<Rightarrow> project_results outcome" where
  "analyze_project ev main0 project_path =
     (case choose_main ev main0 project_path of
        (project_dir, m) \<Rightarrow>
          (case analyze_main ev m of
             Raises e \<Rightarrow> Raises e
           | Returns ma \<Rightarrow>
               (let bfs = find_backup_files ev project_path in
                case analyze_backups ev bfs of
                  Raises e \<Rightarrow> Raises e
                | Returns bas \<Rightarrow>
                    Returns
                      \<lparr> project_folder = project_dir,
                        main_file = m,
                        backup_files = bfs,
                        main_analysis = ma,
                        backup_analyses = bas,
                        project_comparison =
                          (case ma of
                             None \<Rightarrow> None
                           | Some a \<Rightarrow> if bas = [] then None else Some (compare_files a bas)) \<rparr>)))"

section \<open>A sample environment\<close>

text \<open>
  Documents and an environment to run the model on. In the sample environment the
  decompressed payload of a file is its path, and \<open>sample_docs\<close> says which payloads
  parse, and to which document.
\<close>

definition doc_tempo :: "string \<Rightarrow> elem" where
  "doc_tempo v = Elem ''Ableton'' [] None
     [Elem ''LiveSet'' [] None [Elem ''Tempo'' [] None [leaf ''Manual'' [(''Value'', v)]]]]"

definition sample_docs :: "(string \<times> elem) list" where
  "sample_docs =
     [(''proj/song.als'', doc_tracks),
      (''proj/Backup/song [1].als'', doc_tempo ''120''),
      (''proj/Backup/song [2].als'', doc_tempo ''125''),
      (''proj/t0.als'', doc_tempo ''0''),
      (''proj/t120.als'', doc_tempo ''120''),
      (''proj/t120_05.als'', doc_tempo ''120.05''),
      (''proj/t125.als'', doc_tempo ''125'')]"

definition env_sample :: env where
  "env_sample =
     \<lparr> exists_raises = (\<lambda>p. None),
       path_exists = (\<lambda>p. p \<in> set (''proj'' # ''proj/Backup'' # ''proj/bad.als''
                        # ''proj/broken.als'' # map fst sample_docs)),
       path_is_file = (\<lambda>p. p \<in> set (''proj/bad.als'' # ''proj/broken.als'' # map fst sample_docs)),
       stat_raises = (\<lambda>p. None),
       st_size = length,
       st_mtime = (\<lambda>p. if p = ''proj/Backup/song [1].als'' then 100
                        else if p = ''proj/Backup/song [2].als'' then 200 else 300),
       parent = (\<lambda>p. if prefix ''proj/Backup/'' p then ''proj/Backup'' else ''proj''),
       path_name = (\<lambda>p. last (split_on CHR ''/'' p)),
       path_suffix = (\<lambda>p. if py_in ''.als'' p then ''.als'' else []),
       joinpath = (\<lambda>d f. d @ ''/'' @ f),
       glob_als = (\<lambda>d. if d = ''proj/Backup''
                        then [''proj/Backup/song [1].als'', ''proj/Backup/song [2].als'']
                        else []),
       rglob_als = (\<lambda>d. if d = ''proj''
                         then [''proj/song.als'', ''proj/Backup/song [1].als'',
                               ''proj/Backup/song [2].als'']
                         else []),
       gzip_read = (\<lambda>p. if p = ''proj/bad.als''
                         then Inl (Exn ''BadGzipFile'' ''Not a gzipped file'')
                         else Inr p),
       fromstring = (\<lambda>s. case map_of sample_docs s of
                            None \<Rightarrow> Inl (Exn ''ParseError'' ''syntax error: line 1, column 0'')
                          | Some d \<Rightarrow> Inr d),
       pyfloat = (\<lambda>s. map_of [(''0'', 0), (''120'', 120), (''120.05'', 2401 / 20), (''125'', 125)] s),
       isoformat = (\<lambda>t. Inr ''2024-01-01T00:00:00''),
       format_exc = (\<lambda>e. exc_class e @ '': '' @ exc_str e),
       call_budget = 990,
       recursion_error = Exn ''RecursionError'' ''maximum recursion depth exceeded'' \<rparr>"

text \<open>
  Two variations: an environment in which decompression raises an exception that has no
  message, as \<^verbatim>\<open>MemoryError()\<close> has none, and one in which the time stamp of the file
  is out of the range of \<^verbatim>\<open>datetime.fromtimestamp\<close>.
\<close>

definition env_no_message :: env where
  "env_no_message = env_sample\<lparr> gzip_read := (\<lambda>p. Inl (Exn ''MemoryError'' [])) \<rparr>"

definition env_far_future :: env where
  "env_far_future =
     env_sample\<lparr> st_mtime := (\<lambda>p. 1000000000000),
                 isoformat := (\<lambda>t. if t < 253402300800 then Inr ''2024-01-01T00:00:00''
                                    else Inl (Exn ''ValueError'' ''year 33658 is out of range'')) \<rparr>"

text \<open>A document with one unnamed device, and one with a plugin that has two paths.\<close>

definition doc_device :: elem where
  "doc_device = Elem ''Ableton'' [] None
     [Elem ''DeviceChain'' [] None [Elem ''AudioEffectGroupDevice'' [(''Id'', ''0'')] None []]]"

definition doc_plugin :: elem where
  "doc_plugin = Elem ''Ableton'' [] None
     [Elem ''PluginDevice'' [] None
        [leaf ''Path'' [(''Value'', ''C:/VST/Synth.dll'')],
         leaf ''PresetPath'' [(''Value'', ''Presets/Lead.fxp'')]]]"

section \<open>The resolution rule for textual values\<close>

text \<open>
  The rule as the specification words it: the value of an element is its \<^verbatim>\<open>Value\<close>
  attribute if present, else its text content, else absent.
\<close>

definition resolve_text_spec :: "elem \<Rightarrow> string option" where
  "resolve_text_spec e = (case get e ''Value'' of Some v \<Rightarrow> Some v | None \<Rightarrow> etext e)"

text \<open>
  What the extractors compute, in closed form: the stripped value of a name element, and
  the tempo that one Tempo element contributes, read from the \<^verbatim>\<open>Value\<close> attribute of its
  first Manual descendant.
\<close>

definition stripped_value :: "elem \<Rightarrow> string" where
  "stripped_value n = (case value_or_text n of None \<Rightarrow> [] | Some v \<Rightarrow> strip v)"

definition manual_tempo :: "(string \<Rightarrow> real option) \<Rightarrow> elem \<Rightarrow> real option" where
  "manual_tempo pf e =
     (case find_descendant ''Manual'' e of
        None \<Rightarrow> None
      | Some manual \<Rightarrow>
          (case get manual ''Value'' of
             None \<Rightarrow> None
           | Some v \<Rightarrow> if v = [] then None else pf v))"

text \<open>
  A document whose tempo stands in the text of the Manual element, and one whose
  annotation has an empty \<^verbatim>\<open>Value\<close> attribute and a text.
\<close>

definition doc_tempo_text :: elem where
  "doc_tempo_text = Elem ''Ableton'' [] None
     [Elem ''Tempo'' [] None [Elem ''Manual'' [] (Some ''120'') []]]"

definition doc_annotation :: elem where
  "doc_annotation = Elem ''Ableton'' [] None
     [Elem ''Annotation'' [(''Value'', [])] (Some ''rough mix'') []]"

section \<open>The similarity score\<close>

text \<open>
  Modelled from the spec: the similarity analyzer (the module
  \<^verbatim>\<open>services/similarity_analyzer.py\<close> that the recommendations panel imports) is not among
  the sources; only its caller is. The definitions below follow section 4.4 of the
  specification. A feature record carries what the panel passes for a project. The score
  is a weighted combination of per-dimension similarities: the Jaccard overlap of the
  plugin sets and of the device sets, defined as 0 when both sets are empty; a decaying
  function of the absolute tempo difference; a function of the absolute differences of the
  track counts and of the track-kind ratios; and a decaying function of the absolute
  difference of the arrangement lengths. The specification fixes neither the weights nor
  the decaying functions, so they are parameters; a dimension whose value is absent on
  either side contributes \<open>absent_score\<close>.
\<close>

record features =
  feat_plugins :: "string list"
  feat_devices :: "string list"
  feat_tempo :: "real option"
  feat_track_count :: nat
  feat_audio_tracks :: nat
  feat_midi_tracks :: nat
  feat_return_tracks :: nat
  feat_group_tracks :: nat
  feat_arrangement_length :: "real option"

record sim_config =
  weight_plugins :: real
  weight_devices :: real
  weight_tempo :: real
  weight_structure :: real
  weight_length :: real
  tempo_decay :: "real \<Rightarrow> real"
  length_decay :: "real \<Rightarrow> real"
  structure_decay :: "real list \<Rightarrow> real"
  absent_score :: real

definition jaccard :: "string list \<Rightarrow> string list \<Rightarrow> real" where
  "jaccard a b =
     (if set a \<union> set b = {} then 0
      else real (card (set a \<inter> set b)) / real (card (set a \<union> set b)))"

definition proximity :: "(real \<Rightarrow> real) \<Rightarrow> real \<Rightarrow> real option \<Rightarrow> real option \<Rightarrow> real" where
  "proximity decay absent x y =
     (case (x, y) of (Some u, Some v) \<Rightarrow> decay \<bar>u - v\<bar> | _ \<Rightarrow> absent)"

definition ratio :: "nat \<Rightarrow> nat \<Rightarrow> real" where
  "ratio k n = (if n = 0 then 0 else real k / real n)"

definition track_profile :: "features \<Rightarrow> real list" where
  "track_profile f =
     [real (feat_track_count f),
      ratio (feat_audio_tracks f) (feat_track_count f),
      ratio (feat_midi_tracks f) (feat_track_count f),
      ratio (feat_return_tracks f) (feat_track_count f),
      ratio (feat_group_tracks f) (feat_track_count f)]"

definition structural_proximity :: "sim_config \<Rightarrow> features \<Rightarrow> features \<Rightarrow> real" where
  "structural_proximity cfg a b =
     structure_decay cfg (map (\<lambda>(u, v). \<bar>u - v\<bar>) (zip (track_profile a) (track_profile b)))"

definition similarity :: "sim_config \<Rightarrow> features \<Rightarrow> features \<Rightarrow> real" where
  "similarity cfg a b =
     (let weights = weight_plugins cfg + weight_devices cfg + weight_tempo cfg
                    + weight_structure cfg + weight_length cfg
      in if weights = 0 then 0
         else (weight_plugins cfg * jaccard (feat_plugins a) (feat_plugins b)
               + weight_devices cfg * jaccard (feat_devices a) (feat_devices b)
               + weight_tempo cfg
                   * proximity (tempo_decay cfg) (absent_score cfg) (feat_tempo a) (feat_tempo b)
               + weight_structure cfg * structural_proximity cfg a b
               + weight_length cfg
                   * proximity (length_decay cfg) (absent_score cfg)
                       (feat_arrangement_length a) (feat_arrangement_length b))
              / weights)"

section \<open>Measures of a document and of the comparison\<close>

text \<open>
  The nesting depth of a document below its root, a document that is a single chain of
  the given depth, and the tally of local names that the structure traversal keeps.
\<close>

fun height :: "elem \<Rightarrow> nat" where
  "height (Elem t a x cs) = foldr max (map (\<lambda>c. Suc (height c)) cs) 0"

fun chain :: "nat \<Rightarrow> elem" where
  "chain 0 = Elem ''Leaf'' [] None []"
| "chain (Suc n) = Elem ''Group'' [] None [chain n]"

definition tally :: "elem \<Rightarrow> (string \<rightharpoonup> nat) \<Rightarrow> (string \<rightharpoonup> nat)" where
  "tally e m = m(local_name (tag e) \<mapsto> (case m (local_name (tag e)) of None \<Rightarrow> 0 | Some n \<Rightarrow> n) + 1)"

text \<open>The entry, if any, that one backup adds to the timing changes.\<close>

definition tempo_entry :: "analysis \<Rightarrow> analysis \<Rightarrow> tempo_change list" where
  "tempo_entry main backup =
     (case (tempo_of backup, tempo_of main) of
        (Some bt, Some mt) \<Rightarrow>
          if bt \<noteq> 0 \<and> mt \<noteq> 0 \<and> \<bar>bt - mt\<bar> > 1 / 10
          then [\<lparr> tempo_backup = file_path backup, tempo_value = bt, tempo_main = mt \<rparr>]
          else []
      | _ \<Rightarrow> [])"

section \<open>Properties of the string operations\<close>

lemma split_on_nonempty: "split_on c s \<noteq> []"
  by (induction s) (auto split: list.splits)

lemma split_on_notin: "c \<notin> set s \<Longrightarrow> split_on c s = [s]"
  by (induction s) auto

lemma length_split_on: "length (split_on c s) = Suc (length (filter (\<lambda>x. x = c) s))"
  by (induction s) (auto split: list.splits)

lemma last_split_on_Cons:
  assumes "c \<in> set s"
  shows "last (split_on c (a # s)) = last (split_on c s)"
proof -
  from assms have "filter (\<lambda>x. x = c) s \<noteq> []"
    by (auto simp: filter_empty_conv)
  then have "2 \<le> length (split_on c s)"
    by (cases "filter (\<lambda>x. x = c) s") (auto simp: length_split_on)
  then obtain w v ws where "split_on c s = w # v # ws"
    by (cases "split_on c s"; cases "tl (split_on c s)") auto
  then show ?thesis by simp
qed

lemma last_split_on_append: "last (split_on c (p @ c # t)) = last (split_on c t)"
proof (induction p)
  case Nil
  show ?case by (simp add: split_on_nonempty)
next
  case (Cons a p)
  have "last (split_on c (a # (p @ c # t))) = last (split_on c (p @ c # t))"
    by (rule last_split_on_Cons) simp
  with Cons show ?case by simp
qed

lemma local_name_last: "local_name t = last (split_on (CHR 0x7D) t)"
  by (simp add: local_name_def split_on_notin)

lemma local_name_qualified: "local_name (ns @ CHR 0x7D # t) = local_name t"
  by (simp only: local_name_last last_split_on_append)

section \<open>Properties of the track extractor\<close>

lemma iter_unfold: "iter e = e # concat (map iter (children e))"
  by (cases e) simp

lemma fold_tracks_audio:
  "length (audio_tracks (fold tracks_step es tr)) =
     length (audio_tracks tr) + length (filter (\<lambda>e. local_name (tag e) = ''AudioTrack'') es)"
  by (induction es arbitrary: tr) (simp_all add: tracks_step_def Let_def)

lemma fold_tracks_midi:
  "length (midi_tracks (fold tracks_step es tr)) =
     length (midi_tracks tr) + length (filter (\<lambda>e. local_name (tag e) = ''MidiTrack'') es)"
  by (induction es arbitrary: tr) (simp_all add: tracks_step_def Let_def)

lemma fold_tracks_return:
  "length (return_tracks (fold tracks_step es tr)) =
     length (return_tracks tr) + length (filter (\<lambda>e. local_name (tag e) = ''ReturnTrack'') es)"
  by (induction es arbitrary: tr) (simp_all add: tracks_step_def Let_def)

lemma fold_tracks_group:
  "length (group_tracks (fold tracks_step es tr)) =
     length (group_tracks tr) + length (filter (\<lambda>e. local_name (tag e) = ''GroupTrack'') es)"
  by (induction es arbitrary: tr) (simp_all add: tracks_step_def Let_def)

lemma fold_tracks_total:
  "total_count (fold tracks_step es tr) =
     total_count tr + length (filter (\<lambda>e. local_name (tag e) \<in>
        {''AudioTrack'', ''MidiTrack'', ''ReturnTrack'', ''GroupTrack''}) es)"
  by (induction es arbitrary: tr) (simp_all add: tracks_step_def Let_def)

lemma fold_tracks_master:
  "(master_track (fold tracks_step es tr) = None) =
     (master_track tr = None \<and> \<not> (\<exists>e \<in> set es. local_name (tag e) = ''MasterTrack''))"
  by (induction es arbitrary: tr) (auto simp add: tracks_step_def Let_def)


lemma iter_doc_tracks:
  "map tag (iter doc_tracks) =
     [''Ableton'', ''LiveSet'', ''Tracks'', ''AudioTrack'', ''Name'', ''MidiTrack'', ''AudioTrack'',
      ''MasterTrack'']"
  by (simp add: doc_tracks_def leaf_def)



section \<open>Namespace invariance of the track counts\<close>

lemma iter_qualify: "iter (qualify sel ns e) = map (qualify sel ns) (iter e)"
proof (induction e)
  case (Elem t a x cs)
  have "concat (map iter (map (qualify sel ns) cs)) = map (qualify sel ns) (concat (map iter cs))"
    using Elem by (induction cs) simp_all
  then show ?case by simp
qed

lemma local_name_tag_qualify: "local_name (tag (qualify sel ns e)) = local_name (tag e)"
proof (cases e)
  case (Elem t a x cs)
  have "local_name ((CHR 0x7B # ns) @ CHR 0x7D # t) = local_name t"
    by (rule local_name_qualified)
  with Elem show ?thesis by simp
qed

lemma filter_local_qualify:
  "length (filter (\<lambda>e. P (local_name (tag e))) (map (qualify sel ns) es)) =
   length (filter (\<lambda>e. P (local_name (tag e))) es)"
  by (induction es) (simp_all add: local_name_tag_qualify)

text \<open>
  C6. Qualifying any selection of the tags of a document with a namespace leaves the
  track counts of the extracted record as they were: the number of audio, midi, return
  and group tracks, the total count, and whether a master track was found. Read from
  right to left, the same equations cover the removal of the namespace.
\<close>

theorem track_counts_namespace_invariant:
  "length (audio_tracks (extract_tracks (qualify sel ns doc))) =
     length (audio_tracks (extract_tracks doc))
   \<and> length (midi_tracks (extract_tracks (qualify sel ns doc))) =
     length (midi_tracks (extract_tracks doc))
   \<and> length (return_tracks (extract_tracks (qualify sel ns doc))) =
     length (return_tracks (extract_tracks doc))
   \<and> length (group_tracks (extract_tracks (qualify sel ns doc))) =
     length (group_tracks (extract_tracks doc))
   \<and> total_count (extract_tracks (qualify sel ns doc)) = total_count (extract_tracks doc)
   \<and> (master_track (extract_tracks (qualify sel ns doc)) = None) =
     (master_track (extract_tracks doc) = None)"
proof -
  let ?q = "qualify sel ns"
  have a: "length (audio_tracks (extract_tracks (?q doc))) = length (audio_tracks (extract_tracks doc))"
    using filter_local_qualify [of "\<lambda>t. t = ''AudioTrack''" sel ns "iter doc"]
    by (simp add: extract_tracks_def fold_tracks_audio iter_qualify)
  have m: "length (midi_tracks (extract_tracks (?q doc))) = length (midi_tracks (extract_tracks doc))"
    using filter_local_qualify [of "\<lambda>t. t = ''MidiTrack''" sel ns "iter doc"]
    by (simp add: extract_tracks_def fold_tracks_midi iter_qualify)
  have r: "length (return_tracks (extract_tracks (?q doc))) = length (return_tracks (extract_tracks doc))"
    using filter_local_qualify [of "\<lambda>t. t = ''ReturnTrack''" sel ns "iter doc"]
    by (simp add: extract_tracks_def fold_tracks_return iter_qualify)
  have g: "length (group_tracks (extract_tracks (?q doc))) = length (group_tracks (extract_tracks doc))"
    using filter_local_qualify [of "\<lambda>t. t = ''GroupTrack''" sel ns "iter doc"]
    by (simp add: extract_tracks_def fold_tracks_group iter_qualify)
  have t: "total_count (extract_tracks (?q doc)) = total_count (extract_tracks doc)"
    using filter_local_qualify
      [of "\<lambda>t. t \<in> {''AudioTrack'', ''MidiTrack'', ''ReturnTrack'', ''GroupTrack''}" sel ns "iter doc"]
    by (simp only: extract_tracks_def fold_tracks_total iter_qualify)
  have ms: "(master_track (extract_tracks (?q doc)) = None) = (master_track (extract_tracks doc) = None)"
    by (simp add: extract_tracks_def fold_tracks_master iter_qualify local_name_tag_qualify)
  from a m r g t ms show ?thesis by blast
qed

section \<open>Properties of single-file analysis\<close>

lemma initial_result_path: "initial_result ev p = Returns r0 \<Longrightarrow> file_path r0 = p"
  by (auto simp: initial_result_def split: option.splits if_splits sum.splits)

lemma analyze_file_raises: "(analyze_file ev p = Raises x) = (initial_result ev p = Raises x)"
  by (cases "initial_result ev p") (simp_all add: analyze_file_def)

lemma analyze_file_fields:
  assumes "initial_result ev p = Returns r0"
  shows "\<exists>r. analyze_file ev p = Returns r
     \<and> error r = map_option exc_str (caught_exception ev p)
     \<and> traceback r = map_option (format_exc ev) (caught_exception ev p)
     \<and> file_metadata r = map_option extract_metadata (parsed_document ev p)
     \<and> (file_structure r = None) = (caught_exception ev p \<noteq> None)
     \<and> (file_data r = None) = (caught_exception ev p \<noteq> None)
     \<and> file_path r = p \<and> file_size r = file_size r0 \<and> modified_date r = modified_date r0"
proof -
  from assms have e: "error r0 = None" "traceback r0 = None" "file_metadata r0 = None"
    "file_structure r0 = None" "file_data r0 = None" "file_path r0 = p"
    by (auto simp: initial_result_def split: option.splits if_splits sum.splits)
  show ?thesis
    using assms e
    by (simp add: analyze_file_def caught_exception_def parsed_document_def caught_def Let_def
        split: sum.splits option.splits)
qed

lemma analyze_file_path: "analyze_file ev p = Returns a \<Longrightarrow> file_path a = p"
proof -
  assume a: "analyze_file ev p = Returns a"
  then obtain r0 where r0: "initial_result ev p = Returns r0"
    by (cases "initial_result ev p") (simp_all add: analyze_file_def)
  from analyze_file_fields [OF r0] a show ?thesis by auto
qed

lemma analyze_backups_paths:
  "analyze_backups ev bs = Returns as \<Longrightarrow> map file_path as = bs"
proof (induction bs arbitrary: as)
  case Nil
  then show ?case by simp
next
  case (Cons b bs)
  then show ?case
    by (auto split: outcome.splits dest: analyze_file_path)
qed

lemma sample_initial:
  "initial_result env_sample p =
     Returns \<lparr> file_path = p,
               file_size = (if path_exists env_sample p then length p else 0),
               modified_date = (if path_exists env_sample p then Some ''2024-01-01T00:00:00'' else None),
               elements = [], file_metadata = None, file_structure = None,
               file_data = None, error = None, traceback = None \<rparr>"
  by (simp add: initial_result_def env_sample_def)

lemma sample_returns: "analyze_file env_sample p = Returns (returned (analyze_file env_sample p))"
  using analyze_file_fields [OF sample_initial, of p] by auto

lemma sample_backups_return:
  "analyze_backups env_sample bs = Returns (returned (analyze_backups env_sample bs))"
proof (induction bs)
  case Nil
  show ?case by simp
next
  case (Cons b bs)
  from sample_returns [of b] obtain a where a: "analyze_file env_sample b = Returns a" by blast
  from Cons obtain as where as: "analyze_backups env_sample bs = Returns as" by blast
  from a as show ?case by simp
qed

lemma sample_bad_exists: "path_exists env_sample ''proj/bad.als''"
  by (simp add: env_sample_def)

lemma sample_bad_gzip:
  "gzip_read env_sample ''proj/bad.als'' = Inl (Exn ''BadGzipFile'' ''Not a gzipped file'')"
  by (simp add: env_sample_def)

lemma sample_broken_exists: "path_exists env_sample ''proj/broken.als''"
  by (simp add: env_sample_def)

lemma sample_broken_gzip: "gzip_read env_sample ''proj/broken.als'' = Inr ''proj/broken.als''"
  by (simp add: env_sample_def)

lemma sample_broken_parse:
  "fromstring env_sample ''proj/broken.als'' =
     Inl (Exn ''ParseError'' ''syntax error: line 1, column 0'')"
  by (simp add: env_sample_def sample_docs_def)

lemma sample_status:
  "exists_raises env_sample p = None" "stat_raises env_sample p = None"
  "isoformat env_sample t = Inr ''2024-01-01T00:00:00''"
  by (simp_all add: env_sample_def)

text \<open>
  C4, as the code has it. When the file exists, the status reads that build the result
  dictionary succeed, and either decompression raises, or decompression succeeds and the
  parser raises, \<open>analyze_file\<close> returns a record: the exception does not leave the call.
  The \<open>error\<close> field of the record is present and holds the text of the exception, so it
  is non-empty exactly when that text is; the \<open>traceback\<close> field is set, and neither
  metadata, structure nor extracted data is attached.
\<close>

theorem analyze_file_records_failure:
  assumes "exists_raises ev p = None" and "path_exists ev p" and "stat_raises ev p = None"
    and "isoformat ev (st_mtime ev p) = Inr stamp"
    and "gzip_read ev p = Inl e \<or> (\<exists>d. gzip_read ev p = Inr d \<and> fromstring ev d = Inl e)"
  shows "\<exists>r. analyze_file ev p = Returns r \<and> error r = Some (exc_str e)
           \<and> truthy (error r) = (exc_str e \<noteq> [])
           \<and> traceback r = Some (format_exc ev e)
           \<and> file_metadata r = None \<and> file_structure r = None \<and> file_data r = None
           \<and> file_path r = p \<and> file_size r = st_size ev p \<and> modified_date r = Some stamp"
proof -
  let ?r0 = "\<lparr> file_path = p, file_size = st_size ev p, modified_date = Some stamp,
     elements = [], file_metadata = None, file_structure = None,
     file_data = None, error = None, traceback = None \<rparr>"
  have i: "initial_result ev p = Returns ?r0"
    using assms(1-4) by (simp add: initial_result_def)
  have c: "caught_exception ev p = Some e" and d: "parsed_document ev p = None"
    using assms(5) by (auto simp: caught_exception_def parsed_document_def)
  from analyze_file_fields [OF i] show ?thesis
    by (auto simp: c d)
qed

theorem analyze_file_records_failure_witness:
  "path_exists env_sample ''proj/bad.als''
   \<and> gzip_read env_sample ''proj/bad.als'' = Inl (Exn ''BadGzipFile'' ''Not a gzipped file'')
   \<and> error (returned (analyze_file env_sample ''proj/bad.als'')) = Some ''Not a gzipped file''
   \<and> path_exists env_sample ''proj/broken.als''
   \<and> gzip_read env_sample ''proj/broken.als'' = Inr ''proj/broken.als''
   \<and> fromstring env_sample ''proj/broken.als'' =
        Inl (Exn ''ParseError'' ''syntax error: line 1, column 0'')
   \<and> error (returned (analyze_file env_sample ''proj/broken.als'')) =
        Some ''syntax error: line 1, column 0''"
proof -
  have a: "gzip_read env_sample ''proj/bad.als'' = Inl (Exn ''BadGzipFile'' ''Not a gzipped file'')
      \<or> (\<exists>d. gzip_read env_sample ''proj/bad.als'' = Inr d
            \<and> fromstring env_sample d = Inl (Exn ''BadGzipFile'' ''Not a gzipped file''))"
    using sample_bad_gzip by simp
  have b: "gzip_read env_sample ''proj/broken.als'' =
        Inl (Exn ''ParseError'' ''syntax error: line 1, column 0'')
      \<or> (\<exists>d. gzip_read env_sample ''proj/broken.als'' = Inr d
            \<and> fromstring env_sample d = Inl (Exn ''ParseError'' ''syntax error: line 1, column 0''))"
    using sample_broken_gzip sample_broken_parse by simp
  from analyze_file_records_failure
    [OF sample_status(1) sample_bad_exists sample_status(2) sample_status(3) a]
  have 1: "error (returned (analyze_file env_sample ''proj/bad.als'')) = Some ''Not a gzipped file''"
    by auto
  from analyze_file_records_failure
    [OF sample_status(1) sample_broken_exists sample_status(2) sample_status(3) b]
  have 2: "error (returned (analyze_file env_sample ''proj/broken.als'')) =
      Some ''syntax error: line 1, column 0''"
    by auto
  from 1 2 sample_bad_exists sample_bad_gzip sample_broken_exists sample_broken_gzip
    sample_broken_parse
  show ?thesis by blast
qed

text \<open>
  The claim C4 as stated fails in two ways. An exception without a message, as
  \<^verbatim>\<open>MemoryError()\<close>, leaves an empty text in the \<open>error\<close> field. And a file that exists
  and cannot be decompressed, with a time stamp that \<^verbatim>\<open>datetime.fromtimestamp\<close> refuses,
  makes \<open>analyze_file\<close> raise before its \<^verbatim>\<open>try\<close> block is entered.
\<close>

lemma no_message_initial:
  "initial_result env_no_message ''proj/bad.als'' =
     Returns \<lparr> file_path = ''proj/bad.als'', file_size = 12,
               modified_date = Some ''2024-01-01T00:00:00'',
               elements = [], file_metadata = None, file_structure = None,
               file_data = None, error = None, traceback = None \<rparr>"
  by (simp add: initial_result_def env_no_message_def env_sample_def)

lemma far_future_initial:
  "initial_result env_far_future ''proj/bad.als'' =
     Raises (Exn ''ValueError'' ''year 33658 is out of range'')"
  by (simp add: initial_result_def env_far_future_def env_sample_def)

theorem failure_without_message_or_record:
  "path_exists env_no_message ''proj/bad.als''
   \<and> gzip_read env_no_message ''proj/bad.als'' = Inl (Exn ''MemoryError'' [])
   \<and> analyze_file env_no_message ''proj/bad.als'' =
       Returns \<lparr> file_path = ''proj/bad.als'', file_size = 12,
                 modified_date = Some ''2024-01-01T00:00:00'',
                 elements = [], file_metadata = None, file_structure = None,
                 file_data = None, error = Some [], traceback = Some ''MemoryError: '' \<rparr>
   \<and> path_exists env_far_future ''proj/bad.als''
   \<and> gzip_read env_far_future ''proj/bad.als'' =
       Inl (Exn ''BadGzipFile'' ''Not a gzipped file'')
   \<and> analyze_file env_far_future ''proj/bad.als'' =
       Raises (Exn ''ValueError'' ''year 33658 is out of range'')"
proof -
  have 1: "path_exists env_no_message ''proj/bad.als''"
    by (simp add: env_no_message_def env_sample_def)
  have 2: "gzip_read env_no_message ''proj/bad.als'' = Inl (Exn ''MemoryError'' [])"
    by (simp add: env_no_message_def)
  have f: "format_exc env_no_message (Exn ''MemoryError'' []) = ''MemoryError: ''"
    by (simp add: env_no_message_def env_sample_def)
  have 3: "analyze_file env_no_message ''proj/bad.als'' =
       Returns \<lparr> file_path = ''proj/bad.als'', file_size = 12,
                 modified_date = Some ''2024-01-01T00:00:00'',
                 elements = [], file_metadata = None, file_structure = None,
                 file_data = None, error = Some [], traceback = Some ''MemoryError: '' \<rparr>"
    by (simp add: analyze_file_def no_message_initial 2 caught_def f)
  have 4: "path_exists env_far_future ''proj/bad.als''"
    by (simp add: env_far_future_def env_sample_def)
  have 5: "gzip_read env_far_future ''proj/bad.als'' =
       Inl (Exn ''BadGzipFile'' ''Not a gzipped file'')"
    by (simp add: env_far_future_def env_sample_def)
  have 6: "analyze_file env_far_future ''proj/bad.als'' =
       Raises (Exn ''ValueError'' ''year 33658 is out of range'')"
    by (simp add: analyze_file_def far_future_initial)
  from 1 2 3 4 5 6 show ?thesis by blast
qed

text \<open>
  C7, as the code has it. The code has no CorruptArchiveError and no
  MalformedDocumentError. Once the result dictionary is built, \<open>analyze_file\<close> returns a
  record whatever happens to decompression, parsing and the structure traversal: the
  \<open>error\<close> field is the text of the exception of the stage that failed and the
  \<open>traceback\<close> field its formatted trace, both absent exactly when all stages succeed.
  Metadata is attached as soon as the document is parsed, also when the traversal then
  fails; structure and extracted data are attached exactly when \<open>error\<close> is absent.
\<close>

theorem analyze_file_error_field:
  assumes "initial_result ev p = Returns r0"
  shows "\<exists>r. analyze_file ev p = Returns r
           \<and> error r = map_option exc_str (caught_exception ev p)
           \<and> traceback r = map_option (format_exc ev) (caught_exception ev p)
           \<and> file_metadata r = map_option extract_metadata (parsed_document ev p)
           \<and> (file_structure r = None) = (caught_exception ev p \<noteq> None)
           \<and> (file_data r = None) = (caught_exception ev p \<noteq> None)
           \<and> file_path r = p \<and> file_size r = file_size r0
           \<and> modified_date r = modified_date r0"
  using assms by (rule analyze_file_fields)

theorem analyze_file_error_field_witness:
  "initial_result env_sample ''proj/broken.als'' =
     Returns \<lparr> file_path = ''proj/broken.als'', file_size = 15,
               modified_date = Some ''2024-01-01T00:00:00'',
               elements = [], file_metadata = None, file_structure = None,
               file_data = None, error = None, traceback = None \<rparr>
   \<and> caught_exception env_sample ''proj/broken.als'' =
       Some (Exn ''ParseError'' ''syntax error: line 1, column 0'')
   \<and> error (returned (analyze_file env_sample ''proj/broken.als'')) =
       Some ''syntax error: line 1, column 0''
   \<and> traceback (returned (analyze_file env_sample ''proj/broken.als'')) =
       Some ''ParseError: syntax error: line 1, column 0''
   \<and> file_metadata (returned (analyze_file env_sample ''proj/broken.als'')) = None
   \<and> file_data (returned (analyze_file env_sample ''proj/broken.als'')) = None"
proof -
  let ?r0 = "\<lparr> file_path = ''proj/broken.als'', file_size = 15,
               modified_date = Some ''2024-01-01T00:00:00'',
               elements = [], file_metadata = None, file_structure = None,
               file_data = None, error = None, traceback = None \<rparr>"
  have i: "initial_result env_sample ''proj/broken.als'' = Returns ?r0"
    by (simp add: sample_initial sample_broken_exists)
  have c: "caught_exception env_sample ''proj/broken.als'' =
       Some (Exn ''ParseError'' ''syntax error: line 1, column 0'')"
    by (simp add: caught_exception_def sample_broken_gzip sample_broken_parse)
  have d: "parsed_document env_sample ''proj/broken.als'' = None"
    by (simp add: parsed_document_def sample_broken_gzip sample_broken_parse)
  have f: "format_exc env_sample (Exn ''ParseError'' ''syntax error: line 1, column 0'') =
      ''ParseError: syntax error: line 1, column 0''"
    by (simp add: env_sample_def)
  from analyze_file_error_field [OF i]
  have "error (returned (analyze_file env_sample ''proj/broken.als'')) =
       Some ''syntax error: line 1, column 0''
   \<and> traceback (returned (analyze_file env_sample ''proj/broken.als'')) =
       Some ''ParseError: syntax error: line 1, column 0''
   \<and> file_metadata (returned (analyze_file env_sample ''proj/broken.als'')) = None
   \<and> file_data (returned (analyze_file env_sample ''proj/broken.als'')) = None"
    by (auto simp: c d f)
  with i c show ?thesis by blast
qed

text \<open>
  The claim C7 as stated fails: on a file that cannot be decompressed the call returns
  normally, with the library's message in the \<open>error\<close> field.
\<close>

theorem corrupt_archive_returns_record:
  "gzip_read env_sample ''proj/bad.als'' = Inl (Exn ''BadGzipFile'' ''Not a gzipped file'')
   \<and> analyze_file env_sample ''proj/bad.als'' =
   Returns \<lparr> file_path = ''proj/bad.als'', file_size = 12,
          modified_date = Some ''2024-01-01T00:00:00'',
          elements = [], file_metadata = None, file_structure = None, file_data = None,
          error = Some ''Not a gzipped file'',
          traceback = Some ''BadGzipFile: Not a gzipped file'' \<rparr>"
proof -
  have f: "format_exc env_sample (Exn ''BadGzipFile'' ''Not a gzipped file'') =
      ''BadGzipFile: Not a gzipped file''"
    by (simp add: env_sample_def)
  show ?thesis
    by (simp add: analyze_file_def sample_initial sample_bad_exists sample_bad_gzip caught_def f)
qed

section \<open>Backup discovery is ordered by recency\<close>

lemma sorted_wrt_desc_sort_key:
  fixes f :: "'a \<Rightarrow> real"
  shows "sorted_wrt (\<lambda>a b. f b \<le> f a) (sort_key (\<lambda>p. - f p) xs)"
proof -
  have "sorted (map (\<lambda>p. - f p) (sort_key (\<lambda>p. - f p) xs))"
    by (rule sorted_sort_key)
  then show ?thesis
    by (simp add: sorted_wrt_map)
qed

text \<open>
  C8. Backup discovery returns the candidate files sorted by modification time, newest
  first, and the project analysis analyses them in that order: when the analysis of the
  backups returns, the backup records come out in the same order, one for each file.
\<close>

theorem backup_records_newest_first:
  "sorted_wrt (\<lambda>a b. st_mtime ev b \<le> st_mtime ev a) (find_backup_files ev project_path)
   \<and> set (find_backup_files ev project_path) = set (backup_candidates ev project_path)
   \<and> (\<forall>as. analyze_backups ev (find_backup_files ev project_path) = Returns as \<longrightarrow>
         map file_path as = find_backup_files ev project_path
         \<and> sorted_wrt (\<lambda>a b. st_mtime ev (file_path b) \<le> st_mtime ev (file_path a)) as)"
proof (intro conjI allI impI)
  let ?fs = "find_backup_files ev project_path"
  show s: "sorted_wrt (\<lambda>a b. st_mtime ev b \<le> st_mtime ev a) ?fs"
    by (simp add: find_backup_files_def sorted_wrt_desc_sort_key)
  show "set ?fs = set (backup_candidates ev project_path)"
    by (simp add: find_backup_files_def)
  fix as
  assume "analyze_backups ev ?fs = Returns as"
  then show m: "map file_path as = ?fs" by (rule analyze_backups_paths)
  have "sorted_wrt (\<lambda>a b. st_mtime ev b \<le> st_mtime ev a) (map file_path as)"
    using s m by simp
  then show "sorted_wrt (\<lambda>a b. st_mtime ev (file_path b) \<le> st_mtime ev (file_path a)) as"
    by (simp add: sorted_wrt_map)
qed

lemma find_backup_files_sample:
  "find_backup_files env_sample ''proj'' =
     [''proj/Backup/song [2].als'', ''proj/Backup/song [1].als'']"
  by (simp add: find_backup_files_def backup_candidates_def env_sample_def is_backup_name_def
      lower_def lower_char_def)

theorem backup_records_newest_first_witness:
  "find_backup_files env_sample ''proj'' =
     [''proj/Backup/song [2].als'', ''proj/Backup/song [1].als'']
   \<and> analyze_backups env_sample (find_backup_files env_sample ''proj'') =
       Returns (returned (analyze_backups env_sample (find_backup_files env_sample ''proj'')))
   \<and> map file_path (returned (analyze_backups env_sample (find_backup_files env_sample ''proj''))) =
       [''proj/Backup/song [2].als'', ''proj/Backup/song [1].als'']"
proof -
  let ?fs = "find_backup_files env_sample ''proj''"
  have r: "analyze_backups env_sample ?fs = Returns (returned (analyze_backups env_sample ?fs))"
    by (rule sample_backups_return)
  from backup_records_newest_first [of env_sample "''proj''", THEN conjunct2, THEN conjunct2,
      rule_format, OF r]
  have "map file_path (returned (analyze_backups env_sample ?fs)) = ?fs" by simp
  with r find_backup_files_sample show ?thesis by simp
qed

section \<open>The structure traversal and its call depth\<close>

lemma foldr_max_less:
  "(b < foldr max (map f cs) (m::nat)) = (b < m \<or> (\<exists>c \<in> set cs. b < f c))"
  by (induction cs) auto

lemma less_add_foldr_max:
  "\<not> b < d \<Longrightarrow> (b < d + foldr max (map f cs) (0::nat)) = (\<exists>c \<in> set cs. b < d + f c)"
  by (induction cs) auto

lemma foldr_max_shift:
  "foldr max (map (\<lambda>c. Suc (d + height c)) cs) (max m d) =
     max m (d + foldr max (map (\<lambda>c. Suc (height c)) cs) 0)"
  by (induction cs) auto

lemma count_visit_fields:
  "total_elements (count_visit t d st) = Suc (total_elements st)"
  "max_depth (count_visit t d st) = max (max_depth st) d"
  "top_level_elements (count_visit t d st) = top_level_elements st"
  by (simp_all add: count_visit_def)

lemma count_elements_children:
  "(count_elements b e d st = None) = (b < d + height e) \<and>
     (\<forall>st'. count_elements b e d st = Some st' \<longrightarrow>
        total_elements st' = total_elements st + length (iter e) \<and>
        max_depth st' = max (max_depth st) (d + height e) \<and>
        top_level_elements st' = top_level_elements st)"
  "(count_children b cs d st = None) = (\<exists>c \<in> set cs. b < d + height c) \<and>
     (\<forall>st'. count_children b cs d st = Some st' \<longrightarrow>
        total_elements st' = total_elements st + length (concat (map iter cs)) \<and>
        max_depth st' = foldr max (map (\<lambda>c. d + height c) cs) (max_depth st) \<and>
        top_level_elements st' = top_level_elements st)"
proof (induction b e d st and b cs d st rule: count_elements_count_children.induct)
  case (1 budget t a x cs depth st)
  show ?case
  proof (cases "budget < depth")
    case True
    then have "budget < depth + height (Elem t a x cs)" by (rule trans_less_add1)
    with True show ?thesis by simp
  next
    case False
    let ?st = "count_visit t depth st"
    have ce: "count_elements budget (Elem t a x cs) depth st = count_children budget cs (Suc depth) ?st"
      using False by simp
    have ih1: "(count_children budget cs (Suc depth) ?st = None) = (\<exists>c \<in> set cs. budget < Suc depth + height c)"
      and ih2: "\<And>st'. count_children budget cs (Suc depth) ?st = Some st' \<Longrightarrow>
        total_elements st' = total_elements ?st + length (concat (map iter cs)) \<and>
        max_depth st' = foldr max (map (\<lambda>c. Suc depth + height c) cs) (max_depth ?st) \<and>
        top_level_elements st' = top_level_elements ?st"
      using 1 [OF False] by simp_all
    have h: "(budget < depth + height (Elem t a x cs)) = (\<exists>c \<in> set cs. budget < Suc depth + height c)"
      using less_add_foldr_max [OF False, of "\<lambda>c. Suc (height c)" cs] by simp
    have n: "(count_elements budget (Elem t a x cs) depth st = None) =
        (budget < depth + height (Elem t a x cs))"
      by (simp only: ce ih1 h)
    have s: "total_elements st' = total_elements st + length (iter (Elem t a x cs)) \<and>
        max_depth st' = max (max_depth st) (depth + height (Elem t a x cs)) \<and>
        top_level_elements st' = top_level_elements st"
      if "count_elements budget (Elem t a x cs) depth st = Some st'" for st'
    proof -
      from that ce have "count_children budget cs (Suc depth) ?st = Some st'" by simp
      from ih2 [OF this] foldr_max_shift [of depth cs "max_depth st"]
      show ?thesis by (simp add: count_visit_fields)
    qed
    from n s show ?thesis by blast
  qed
next
  case (2 budget depth st)
  show ?case by simp
next
  case (3 budget child rest depth st)
  show ?case
  proof (cases "count_elements budget child depth st")
    case None
    with 3(1) have "budget < depth + height child" by simp
    with None show ?thesis by simp
  next
    case (Some st1)
    have cc: "count_children budget (child # rest) depth st = count_children budget rest depth st1"
      using Some by simp
    from 3(1) Some have a: "\<not> budget < depth + height child"
      and b: "total_elements st1 = total_elements st + length (iter child)"
      and c: "max_depth st1 = max (max_depth st) (depth + height child)"
      and d: "top_level_elements st1 = top_level_elements st"
      by simp_all
    have ih1: "(count_children budget rest depth st1 = None) = (\<exists>c \<in> set rest. budget < depth + height c)"
      and ih2: "\<And>st'. count_children budget rest depth st1 = Some st' \<Longrightarrow>
        total_elements st' = total_elements st1 + length (concat (map iter rest)) \<and>
        max_depth st' = foldr max (map (\<lambda>c. depth + height c) rest) (max_depth st1) \<and>
        top_level_elements st' = top_level_elements st1"
      using 3(2) [OF Some] by simp_all
    have m: "foldr max (map (\<lambda>c. depth + height c) rest) (max (max_depth st) (depth + height child))
        = max (depth + height child) (foldr max (map (\<lambda>c. depth + height c) rest) (max_depth st))"
      by (induction rest) auto
    have n: "(count_children budget (child # rest) depth st = None) =
        (\<exists>c \<in> set (child # rest). budget < depth + height c)"
      using a by (simp only: cc ih1) simp
    have s: "total_elements st' = total_elements st + length (concat (map iter (child # rest))) \<and>
        max_depth st' = foldr max (map (\<lambda>c. depth + height c) (child # rest)) (max_depth st) \<and>
        top_level_elements st' = top_level_elements st"
      if "count_children budget (child # rest) depth st = Some st'" for st'
    proof -
      from that cc have "count_children budget rest depth st1 = Some st'" by simp
      from ih2 [OF this] show ?thesis by (simp add: b c d m)
    qed
    from n s show ?thesis by blast
  qed
qed

lemma count_visit_counts:
  "element_counts (count_visit t d st) = tally (Elem t a x cs) (element_counts st)"
  by (simp add: count_visit_def tally_def)

lemma count_elements_counts:
  "\<forall>st'. count_elements b e d st = Some st' \<longrightarrow>
        element_counts st' = fold tally (iter e) (element_counts st)"
  "\<forall>st'. count_children b cs d st = Some st' \<longrightarrow>
        element_counts st' = fold tally (concat (map iter cs)) (element_counts st)"
proof (induction b e d st and b cs d st rule: count_elements_count_children.induct)
  case (1 budget t a x cs depth st)
  show ?case
  proof (cases "budget < depth")
    case True
    then show ?thesis by simp
  next
    case False
    from 1 [OF False] False show ?thesis
      by (simp add: count_visit_counts [of t depth st a x cs])
  qed
next
  case (2 budget depth st)
  show ?case by simp
next
  case (3 budget child rest depth st)
  show ?case
  proof (cases "count_elements budget child depth st")
    case None
    then show ?thesis by simp
  next
    case (Some st1)
    from 3(1) Some have "element_counts st1 = fold tally (iter child) (element_counts st)"
      by simp
    with 3(2) [OF Some] Some show ?thesis by simp
  qed
qed

lemma fold_tally:
  "fold tally es m k =
     (if filter (\<lambda>e. local_name (tag e) = k) es = [] then m k
      else Some ((case m k of None \<Rightarrow> 0 | Some n \<Rightarrow> n)
                 + length (filter (\<lambda>e. local_name (tag e) = k) es)))"
  by (induction es arbitrary: m) (auto simp: tally_def)

lemma foldr_max_acc:
  "foldr max (map f rest) (max (m::nat) k) = max k (foldr max (map f rest) m)"
  by (induction rest) auto

lemma top_level_loop_char:
  "(top_level_loop b cs st = None) = (\<exists>c \<in> set cs. b < Suc (height c)) \<and>
     (\<forall>st'. top_level_loop b cs st = Some st' \<longrightarrow>
        total_elements st' = total_elements st + length (concat (map iter cs)) \<and>
        max_depth st' = foldr max (map (\<lambda>c. Suc (height c)) cs) (max_depth st) \<and>
        top_level_elements st' = top_level_elements st @ map (\<lambda>c. local_name (tag c)) cs \<and>
        element_counts st' = fold tally (concat (map iter cs)) (element_counts st))"
proof (induction cs arbitrary: st)
  case Nil
  show ?case by simp
next
  case (Cons child rest)
  define st0 where "st0 = st\<lparr> top_level_elements := top_level_elements st @ [local_name (tag child)] \<rparr>"
  have st0: "total_elements st0 = total_elements st" "max_depth st0 = max_depth st"
    "top_level_elements st0 = top_level_elements st @ [local_name (tag child)]"
    "element_counts st0 = element_counts st"
    by (simp_all add: st0_def)
  have unf: "top_level_loop b (child # rest) st =
      (case count_elements b child 1 st0 of None \<Rightarrow> None | Some st' \<Rightarrow> top_level_loop b rest st')"
    by (simp add: st0_def)
  have ce: "(count_elements b child 1 st0 = None) = (b < 1 + height child)"
    by (rule count_elements_children(1) [THEN conjunct1])
  show ?case
  proof (cases "count_elements b child 1 st0")
    case None
    with ce have "b < Suc (height child)" by simp
    with None unf show ?thesis by simp
  next
    case (Some st1)
    have "total_elements st1 = total_elements st0 + length (iter child) \<and>
        max_depth st1 = max (max_depth st0) (1 + height child) \<and>
        top_level_elements st1 = top_level_elements st0"
      using count_elements_children(1) [of b child 1 st0, THEN conjunct2] Some by blast
    then have t: "total_elements st1 = total_elements st + length (iter child)"
      and m: "max_depth st1 = max (max_depth st) (Suc (height child))"
      and l: "top_level_elements st1 = top_level_elements st @ [local_name (tag child)]"
      by (simp_all add: st0)
    have c: "element_counts st1 = fold tally (iter child) (element_counts st)"
      using count_elements_counts(1) [of b child 1 st0] Some by (simp add: st0)
    from ce Some have a: "\<not> b < Suc (height child)" by simp
    have tl: "top_level_loop b (child # rest) st = top_level_loop b rest st1"
      using Some unf by simp
    have n: "(top_level_loop b (child # rest) st = None) = (\<exists>c \<in> set (child # rest). b < Suc (height c))"
      using a Cons [of st1, THEN conjunct1] unfolding tl by simp
    have s: "total_elements st' = total_elements st + length (concat (map iter (child # rest))) \<and>
        max_depth st' = foldr max (map (\<lambda>c. Suc (height c)) (child # rest)) (max_depth st) \<and>
        top_level_elements st' = top_level_elements st @ map (\<lambda>c. local_name (tag c)) (child # rest) \<and>
        element_counts st' = fold tally (concat (map iter (child # rest))) (element_counts st)"
      if "top_level_loop b (child # rest) st = Some st'" for st'
    proof -
      from that tl have "top_level_loop b rest st1 = Some st'" by simp
      with Cons [of st1, THEN conjunct2]
      have "total_elements st' = total_elements st1 + length (concat (map iter rest)) \<and>
        max_depth st' = foldr max (map (\<lambda>c. Suc (height c)) rest) (max_depth st1) \<and>
        top_level_elements st' = top_level_elements st1 @ map (\<lambda>c. local_name (tag c)) rest \<and>
        element_counts st' = fold tally (concat (map iter rest)) (element_counts st1)"
        by blast
      then show ?thesis by (simp add: t m l c foldr_max_acc)
    qed
    from n s show ?thesis by blast
  qed
qed

lemma analyze_structure_char:
  "(analyze_structure b doc = None) = (b < height doc) \<and>
     (\<forall>st. analyze_structure b doc = Some st \<longrightarrow>
        Suc (total_elements st) = length (iter doc) \<and>
        max_depth st = height doc \<and>
        top_level_elements st = map (\<lambda>c. local_name (tag c)) (children doc) \<and>
        element_counts st = fold tally (concat (map iter (children doc))) Map.empty)"
proof (cases doc)
  case (Elem t a x cs)
  have h: "(b < height doc) = (\<exists>c \<in> set cs. b < Suc (height c))"
    using Elem by (simp add: foldr_max_less)
  have i: "structure_init = \<lparr> top_level_elements = [], element_counts = Map.empty,
     max_depth = 0, total_elements = 0 \<rparr>" by (rule structure_init_def)
  have f: "total_elements structure_init = 0" "max_depth structure_init = 0"
    "top_level_elements structure_init = []" "element_counts structure_init = Map.empty"
    by (simp_all add: i)
  from top_level_loop_char [of b cs structure_init] h Elem show ?thesis
    by (simp add: analyze_structure_def f)
qed

lemma height_chain: "height (chain n) = n"
  by (induction n) simp_all

lemma analyze_file_data:
  assumes "initial_result ev p = Returns r0"
    and "gzip_read ev p = Inr d" and "fromstring ev d = Inr doc" and "height doc \<le> call_budget ev"
  shows "file_data (returned (analyze_file ev p)) = Some (extract_all ev doc)"
proof -
  from assms(4) analyze_structure_char [of "call_budget ev" doc]
  obtain st where "analyze_structure (call_budget ev) doc = Some st"
    by (cases "analyze_structure (call_budget ev) doc") auto
  with assms(1-3) show ?thesis
    by (simp add: analyze_file_def Let_def)
qed

lemma height_doc_tempo: "height (doc_tempo v) = 3"
  by (simp add: doc_tempo_def leaf_def)

text \<open>
  C9, as the code has it. The structure traversal is a recursive function: a call at
  depth \<open>d\<close> holds \<open>d\<close> nested calls, so the traversal needs as many nested calls as
  the document is deep. It returns exactly when that depth does not exceed the call budget
  of the interpreter, and then the total element count, the maximal depth and the count
  of every tag are those of the document below its root; otherwise RecursionError is
  raised and no structure is produced.
\<close>

theorem structure_traversal_depth:
  "(analyze_structure budget doc = None) = (budget < height doc)
   \<and> (height doc \<le> budget \<longrightarrow>
        (\<exists>st. analyze_structure budget doc = Some st
           \<and> Suc (total_elements st) = length (iter doc)
           \<and> max_depth st = height doc
           \<and> (\<forall>k. element_counts st k =
                (let n = length (filter (\<lambda>e. local_name (tag e) = k)
                                   (concat (map iter (children doc))))
                 in if n = 0 then None else Some n))))"
proof (intro conjI impI)
  show "(analyze_structure budget doc = None) = (budget < height doc)"
    by (rule analyze_structure_char [THEN conjunct1])
next
  assume h: "height doc \<le> budget"
  with analyze_structure_char [of budget doc, THEN conjunct1]
  obtain st where st: "analyze_structure budget doc = Some st"
    by (cases "analyze_structure budget doc") auto
  with analyze_structure_char [of budget doc, THEN conjunct2]
  have a: "Suc (total_elements st) = length (iter doc)" "max_depth st = height doc"
    and c: "element_counts st = fold tally (concat (map iter (children doc))) Map.empty"
    by blast+
  have "element_counts st k =
       (let n = length (filter (\<lambda>e. local_name (tag e) = k) (concat (map iter (children doc))))
        in if n = 0 then None else Some n)" for k
    unfolding c fold_tally by (simp add: Let_def)
  with st a show "\<exists>st. analyze_structure budget doc = Some st
           \<and> Suc (total_elements st) = length (iter doc)
           \<and> max_depth st = height doc
           \<and> (\<forall>k. element_counts st k =
                (let n = length (filter (\<lambda>e. local_name (tag e) = k)
                                   (concat (map iter (children doc))))
                 in if n = 0 then None else Some n))"
    by blast
qed

lemma height_doc_tracks: "height doc_tracks = 4"
  by (simp add: doc_tracks_def leaf_def)

theorem structure_traversal_depth_witness:
  "height doc_tracks \<le> 990
   \<and> (\<exists>st. analyze_structure 990 doc_tracks = Some st
         \<and> total_elements st = 7 \<and> max_depth st = 4
         \<and> element_counts st ''AudioTrack'' = Some 2
         \<and> element_counts st ''Ableton'' = None)"
proof -
  have h: "height doc_tracks \<le> 990" by (simp add: height_doc_tracks)
  from structure_traversal_depth [of 990 doc_tracks, THEN conjunct2, rule_format, OF h]
  obtain st where st: "analyze_structure 990 doc_tracks = Some st"
    "Suc (total_elements st) = length (iter doc_tracks)" "max_depth st = height doc_tracks"
    "\<And>k. element_counts st k =
                (let n = length (filter (\<lambda>e. local_name (tag e) = k)
                                   (concat (map iter (children doc_tracks))))
                 in if n = 0 then None else Some n)"
    by blast
  have 1: "total_elements st = 7" using st(2) by (simp add: doc_tracks_def leaf_def)
  have 2: "max_depth st = 4" using st(3) by (simp add: height_doc_tracks)
  have 3: "element_counts st ''AudioTrack'' = Some 2"
    unfolding st(4) by (simp add: doc_tracks_def leaf_def local_name_def)
  have 4: "element_counts st ''Ableton'' = None"
    unfolding st(4) by (simp add: doc_tracks_def leaf_def local_name_def)
  from h st(1) 1 2 3 4 show ?thesis by blast
qed

text \<open>
  The claim C9 as stated fails: with a call budget of 1000, the default recursion limit
  of the interpreter, a document nested 1001 deep is not traversed.
\<close>

theorem deep_document_exhausts_call_stack:
  "height (chain 1001) = 1001 \<and> analyze_structure 1000 (chain 1001) = None"
proof -
  have h: "height (chain 1001) = 1001" by (rule height_chain)
  have "(analyze_structure 1000 (chain 1001) = None) = (1000 < height (chain 1001))"
    by (rule analyze_structure_char [THEN conjunct1])
  with h show ?thesis by simp
qed

section \<open>The comparator and the tempo\<close>

lemma timing_changes_step:
  "timing_changes (compare_step main b c) = timing_changes c @ tempo_entry main b"
  by (simp add: compare_step_def tempo_entry_def Let_def split: option.splits)

lemma timing_changes_fold:
  "timing_changes (fold (compare_step main) bs c) =
     timing_changes c @ concat (map (tempo_entry main) bs)"
  by (induction bs arbitrary: c) (simp_all add: timing_changes_step)

lemma timing_changes_compare:
  "timing_changes (compare_files main bs) = concat (map (tempo_entry main) bs)"
  by (simp add: compare_files_def timing_changes_fold)

lemma doc_tempo_iter:
  "iter (doc_tempo v) =
     [doc_tempo v,
      Elem ''LiveSet'' [] None [Elem ''Tempo'' [] None [leaf ''Manual'' [(''Value'', v)]]],
      Elem ''Tempo'' [] None [leaf ''Manual'' [(''Value'', v)]],
      leaf ''Manual'' [(''Value'', v)]]"
  by (simp add: doc_tempo_def leaf_def)

lemma tempo_doc_tempo:
  "v \<noteq> [] \<Longrightarrow> tempo (extract_project_info pf (doc_tempo v)) = pf v"
  apply (simp add: extract_project_info_def doc_tempo_iter)
  apply (simp add: doc_tempo_def leaf_def scene_step_def annotation_step_def time_signature_step_def
      tempo_step_def find_descendant_def get_def split: option.splits)
  done

lemma sample_tempo:
  assumes "map_of sample_docs p = Some (doc_tempo v)" and "p \<noteq> ''proj/bad.als''" and "v \<noteq> []"
  shows "tempo_of (returned (analyze_file env_sample p)) = pyfloat env_sample v"
proof -
  have g: "gzip_read env_sample p = Inr p" using assms(2) by (simp add: env_sample_def)
  have f: "fromstring env_sample p = Inr (doc_tempo v)" using assms(1) by (simp add: env_sample_def)
  have b: "height (doc_tempo v) \<le> call_budget env_sample"
    by (simp add: height_doc_tempo env_sample_def)
  show ?thesis
    by (simp add: tempo_of_def analyze_file_data [OF sample_initial g f b] extract_all_def
        tempo_doc_tempo [OF assms(3)])
qed

lemma sample_tempo_0: "tempo_of (returned (analyze_file env_sample ''proj/t0.als'')) = Some 0"
  using sample_tempo [of "''proj/t0.als''" "''0''"]
  by (simp add: sample_docs_def env_sample_def)

lemma sample_tempo_120: "tempo_of (returned (analyze_file env_sample ''proj/t120.als'')) = Some 120"
  using sample_tempo [of "''proj/t120.als''" "''120''"]
  by (simp add: sample_docs_def env_sample_def)

lemma sample_tempo_120_05: "tempo_of (returned (analyze_file env_sample ''proj/t120_05.als'')) = Some (2401 / 20)"
  using sample_tempo [of "''proj/t120_05.als''" "''120.05''"]
  by (simp add: sample_docs_def env_sample_def)

lemma sample_tempo_125: "tempo_of (returned (analyze_file env_sample ''proj/t125.als'')) = Some 125"
  using sample_tempo [of "''proj/t125.als''" "''125''"]
  by (simp add: sample_docs_def env_sample_def)

text \<open>
  C3. The comparator tests the two tempos by their truth value, and a float that is zero
  is false: a main file with tempo 0 and a backup with tempo 120 have both tempos present
  and differ by more than 0.1, yet no tempo entry is emitted.
\<close>

theorem tempo_zero_not_reported:
  "tempo_of (returned (analyze_file env_sample ''proj/t0.als'')) = Some 0
   \<and> tempo_of (returned (analyze_file env_sample ''proj/t120.als'')) = Some 120
   \<and> timing_changes (compare_files (returned (analyze_file env_sample ''proj/t0.als''))
        [returned (analyze_file env_sample ''proj/t120.als'')]) = []"
  by (simp add: sample_tempo_0 sample_tempo_120 timing_changes_compare tempo_entry_def)

text \<open>
  The two scenarios of the specification, with tempos away from zero: 120 against 120.05
  emits nothing, 120 against 125 emits one entry.
\<close>

lemma tempo_scenarios:
  "timing_changes (compare_files (returned (analyze_file env_sample ''proj/t120.als''))
        [returned (analyze_file env_sample ''proj/t120_05.als'')]) = []
   \<and> timing_changes (compare_files (returned (analyze_file env_sample ''proj/t120.als''))
        [returned (analyze_file env_sample ''proj/t125.als'')]) =
       [\<lparr> tempo_backup = ''proj/t125.als'', tempo_value = 125, tempo_main = 120 \<rparr>]"
proof -
  have p: "file_path (returned (analyze_file env_sample ''proj/t125.als'')) = ''proj/t125.als''"
    by (rule analyze_file_path [OF sample_returns])
  show ?thesis
    by (simp add: sample_tempo_120 sample_tempo_120_05 sample_tempo_125 timing_changes_compare tempo_entry_def p)
qed

section \<open>Count fields and list fields\<close>

lemma fold_devices_count:
  "acc_count (fold devices_step es d) =
     acc_count d + length (filter (\<lambda>e. py_in ''Device'' (local_name (tag e))
                                     \<and> local_name (tag e) \<noteq> ''DeviceChain'') es)"
  by (induction es arbitrary: d) (simp_all add: devices_step_def Let_def)

lemma fold_devices_names:
  "length (acc_names d) \<le> acc_count d \<Longrightarrow>
   length (acc_names (fold devices_step es d)) \<le> acc_count (fold devices_step es d)"
  by (induction es arbitrary: d) (simp_all add: devices_step_def Let_def split: option.splits)

lemma fold_plugin_path_count: "plugin_count (fold plugin_path_step es p) = plugin_count p"
  by (induction es arbitrary: p) (simp_all add: plugin_path_step_def Let_def split: option.splits)

lemma fold_plugins_count:
  "plugin_count (fold plugins_step es p) =
     plugin_count p + length (filter (\<lambda>e. is_plugin_tag (local_name (tag e))) es)"
  by (induction es arbitrary: p) (simp_all add: plugins_step_def fold_plugin_path_count)

lemma sample_child_inv:
  "sample_count s = length (sample_paths s) \<Longrightarrow>
   sample_count (fold sample_child_step cs s) = length (sample_paths (fold sample_child_step cs s))"
  by (induction cs arbitrary: s) (simp_all add: sample_child_step_def Let_def split: option.splits)

lemma fold_samples_inv:
  "sample_count s = length (sample_paths s) \<Longrightarrow>
   sample_count (fold samples_step es s) = length (sample_paths (fold samples_step es s))"
  by (induction es arbitrary: s) (simp_all add: samples_step_def Let_def sample_child_inv)

lemma render_child_inv:
  "export_count (fold render_child_step cs x) = export_count x
   \<and> export_logs (fold render_child_step cs x) = export_logs x"
  by (induction cs arbitrary: x) (simp_all add: render_child_step_def Let_def split: option.splits)

lemma fold_export_inv:
  "export_count x = length (export_logs x) \<Longrightarrow>
   export_count (fold export_step es x) = length (export_logs (fold export_step es x))"
  by (induction es arbitrary: x) (simp_all add: export_step_def Let_def render_child_inv)

lemma fold_backup_inv:
  "backup_count b = length (backup_references b) \<Longrightarrow>
   backup_count (fold backup_step es b) = length (backup_references (fold backup_step es b))"
  by (induction es arbitrary: b) (simp_all add: backup_step_def)

lemma fold_scene_inv:
  "length (scenes p) \<le> scene_count p \<Longrightarrow>
   length (scenes (fold scene_step es p)) \<le> scene_count (fold scene_step es p)"
  by (induction es arbitrary: p) (simp_all add: scene_step_def Let_def split: option.splits)

lemma fold_annotation_scenes:
  "scenes (fold annotation_step es p) = scenes p \<and> scene_count (fold annotation_step es p) = scene_count p"
  by (induction es arbitrary: p) (simp_all add: annotation_step_def)

lemma fold_time_signature_scenes:
  "scenes (fold time_signature_step es p) = scenes p
   \<and> scene_count (fold time_signature_step es p) = scene_count p"
  by (induction es arbitrary: p) (simp_all add: time_signature_step_def split: option.splits)

lemma fold_tempo_scenes:
  "scenes (fold (tempo_step pf) es p) = scenes p
   \<and> scene_count (fold (tempo_step pf) es p) = scene_count p"
  by (induction es arbitrary: p) (simp_all add: tempo_step_def split: option.splits)

lemma fold_clips_inv:
  "clip_count c = audio_clips c + midi_clips c \<Longrightarrow>
   clip_count (fold clips_step es c) =
     audio_clips (fold clips_step es c) + midi_clips (fold clips_step es c)"
  by (induction es arbitrary: c) (simp_all add: clips_step_def Let_def)

text \<open>
  C1, as the code has it. The count equals the length of the list in the samples, export
  and backup buckets. In the devices bucket the count is the number of device elements
  and the list holds the names of the named ones only, so it is at most as long; the
  same holds for scenes. The plugin count is the number of plugin elements, whatever the
  number of paths, and the clip count is the sum of the audio and midi clip counts.
\<close>

theorem counts_and_lists:
  "sample_count (extract_samples doc) = length (sample_paths (extract_samples doc))
   \<and> export_count (extract_export_info doc) = length (export_logs (extract_export_info doc))
   \<and> backup_count (extract_backup_info doc) = length (backup_references (extract_backup_info doc))
   \<and> devices_device_count (extract_devices doc) =
        length (filter (\<lambda>e. py_in ''Device'' (local_name (tag e))
                           \<and> local_name (tag e) \<noteq> ''DeviceChain'') (iter doc))
   \<and> length (device_names (extract_devices doc)) \<le> devices_device_count (extract_devices doc)
   \<and> plugin_count (extract_plugins doc) =
        length (filter (\<lambda>e. is_plugin_tag (local_name (tag e))) (iter doc))
   \<and> length (scenes (extract_project_info pf doc)) \<le> scene_count (extract_project_info pf doc)
   \<and> clip_count (extract_clips doc) =
        audio_clips (extract_clips doc) + midi_clips (extract_clips doc)"
proof -
  have s: "sample_count (extract_samples doc) = length (sample_paths (extract_samples doc))"
    unfolding extract_samples_def by (rule fold_samples_inv) simp
  have x: "export_count (extract_export_info doc) = length (export_logs (extract_export_info doc))"
    unfolding extract_export_info_def by (rule fold_export_inv) simp
  have b: "backup_count (extract_backup_info doc) = length (backup_references (extract_backup_info doc))"
    unfolding extract_backup_info_def by (rule fold_backup_inv) simp
  have d: "devices_device_count (extract_devices doc) =
        length (filter (\<lambda>e. py_in ''Device'' (local_name (tag e))
                           \<and> local_name (tag e) \<noteq> ''DeviceChain'') (iter doc))"
    by (simp add: extract_devices_def Let_def fold_devices_count)
  have n: "length (device_names (extract_devices doc)) \<le> devices_device_count (extract_devices doc)"
    using fold_devices_names [of "\<lparr> acc_types = {}, acc_names = [], acc_count = 0 \<rparr>" "iter doc"]
    by (simp add: extract_devices_def Let_def)
  have p: "plugin_count (extract_plugins doc) =
        length (filter (\<lambda>e. is_plugin_tag (local_name (tag e))) (iter doc))"
    by (simp add: extract_plugins_def fold_plugins_count)
  have sc: "length (scenes (extract_project_info pf doc)) \<le> scene_count (extract_project_info pf doc)"
    unfolding extract_project_info_def
    by (rule fold_scene_inv)
       (simp add: fold_annotation_scenes fold_time_signature_scenes fold_tempo_scenes)
  have c: "clip_count (extract_clips doc) =
        audio_clips (extract_clips doc) + midi_clips (extract_clips doc)"
    unfolding extract_clips_def by (rule fold_clips_inv) simp
  from s x b d n p sc c show ?thesis by blast
qed

text \<open>
  The claim C1 as stated fails: an unnamed device is counted and adds no name, and a
  plugin with two path elements is counted once and adds two paths.
\<close>

theorem device_and_plugin_counts_differ:
  "devices_device_count (extract_devices doc_device) = 1
   \<and> device_names (extract_devices doc_device) = []
   \<and> plugin_count (extract_plugins doc_plugin) = 1
   \<and> plugin_paths (extract_plugins doc_plugin) = [''C:/VST/Synth.dll'', ''Presets/Lead.fxp'']"
  by (simp add: extract_devices_def doc_device_def devices_step_def local_name_def Let_def
      extract_plugins_def doc_plugin_def plugins_step_def is_plugin_tag_def plugin_path_step_def
      leaf_def get_def lower_def lower_char_def)

section \<open>Resolution of textual values\<close>

lemma value_or_text_rule:
  "value_or_text e = (if get e ''Value'' = Some [] then etext e else resolve_text_spec e)"
  by (cases "get e ''Value''") (simp_all add: value_or_text_def py_or_def resolve_text_spec_def)

lemma strip_Nil: "strip [] = []"
  by (simp add: strip_def)

lemma track_name_loop_find:
  "track_name_loop es =
     map_option stripped_value
       (find (\<lambda>n. (py_in ''Name'' (tag n) \<or> py_in ''UserName'' (tag n)) \<and> stripped_value n \<noteq> []) es)"
  by (induction es) (auto simp: stripped_value_def strip_Nil split: option.splits)

lemma clip_name_loop_find:
  "clip_name_loop es =
     map_option stripped_value (find (\<lambda>n. py_in ''Name'' (tag n) \<and> stripped_value n \<noteq> []) es)"
  by (induction es) (auto simp: stripped_value_def strip_Nil split: option.splits)

lemma scene_name_loop_find:
  "scene_name_loop es =
     (case find (\<lambda>n. py_in ''Name'' (tag n)) es of None \<Rightarrow> None | Some n \<Rightarrow> value_or_text n)"
  by (induction es) simp_all

lemma fold_annotation:
  "annotation (fold annotation_step es p) =
     (let vs = filter truthy (map value_or_text (filter (\<lambda>e. py_in ''Annotation'' (tag e)) es))
      in if vs = [] then annotation p else last vs)"
  by (induction es arbitrary: p) (simp_all add: annotation_step_def Let_def)

lemma fold_scene_annotation: "annotation (fold scene_step es p) = annotation p"
  by (induction es arbitrary: p) (simp_all add: scene_step_def Let_def split: option.splits)

lemma fold_time_signature_annotation: "annotation (fold time_signature_step es p) = annotation p"
  by (induction es arbitrary: p) (simp_all add: time_signature_step_def split: option.splits)

lemma fold_tempo_annotation: "annotation (fold (tempo_step pf) es p) = annotation p"
  by (induction es arbitrary: p) (simp_all add: tempo_step_def split: option.splits)

lemma fold_scenes:
  "scenes (fold scene_step es p) =
     scenes p @ concat (map (\<lambda>e. case scene_name_loop (iter e) of
                                   None \<Rightarrow> [] | Some v \<Rightarrow> if v = [] then [] else [v])
                          (filter (\<lambda>e. py_in ''Scene'' (tag e)) es))"
  by (induction es arbitrary: p) (simp_all add: scene_step_def Let_def split: option.splits)

lemma tempo_step_manual:
  "tempo (tempo_step pf e p) =
     (if py_in ''Tempo'' (tag e) then (case manual_tempo pf e of None \<Rightarrow> tempo p | Some f \<Rightarrow> Some f)
      else tempo p)"
  by (simp add: tempo_step_def manual_tempo_def split: option.splits)

lemma fold_tempo:
  "tempo (fold (tempo_step pf) es p) =
     (let ts = List.map_filter (manual_tempo pf) (filter (\<lambda>e. py_in ''Tempo'' (tag e)) es)
      in if ts = [] then tempo p else Some (last ts))"
proof (induction es arbitrary: p)
  case Nil
  show ?case by (simp add: List.map_filter_simps)
next
  case (Cons e es)
  show ?case
    by (simp add: Cons tempo_step_manual Let_def List.map_filter_simps split: option.splits)
qed

lemma fold_scene_tempo: "tempo (fold scene_step es p) = tempo p"
  by (induction es arbitrary: p) (simp_all add: scene_step_def Let_def split: option.splits)

lemma fold_annotation_tempo: "tempo (fold annotation_step es p) = tempo p"
  by (induction es arbitrary: p) (simp_all add: annotation_step_def)

lemma fold_time_signature_tempo: "tempo (fold time_signature_step es p) = tempo p"
  by (induction es arbitrary: p) (simp_all add: time_signature_step_def split: option.splits)

lemma fold_clip_names:
  "clip_names (fold clips_step es c) =
     clip_names c @ concat (map (\<lambda>e. case clip_name_loop (iter e) of None \<Rightarrow> [] | Some n \<Rightarrow> [n])
                              (filter (\<lambda>e. py_in ''Clip'' (local_name (tag e))) es))"
  by (induction es arbitrary: c) (simp_all add: clips_step_def Let_def)

lemma annotation_extract:
  "annotation (extract_project_info pf doc) =
       (let vs = filter truthy (map value_or_text
                    (filter (\<lambda>e. py_in ''Annotation'' (tag e)) (iter doc)))
        in if vs = [] then None else last vs)"
  by (simp add: extract_project_info_def fold_scene_annotation fold_annotation
      fold_time_signature_annotation fold_tempo_annotation Let_def cong: if_cong)

lemma tempo_extract:
  "tempo (extract_project_info pf doc) =
       (let ts = List.map_filter (manual_tempo pf) (filter (\<lambda>e. py_in ''Tempo'' (tag e)) (iter doc))
        in if ts = [] then None else Some (last ts))"
  by (simp add: extract_project_info_def fold_scene_tempo fold_annotation_tempo
      fold_time_signature_tempo fold_tempo Let_def cong: if_cong)

text \<open>
  C5, as the code has it. The expression \<^verbatim>\<open>get('Value') or text\<close> is the rule of the
  specification except that an empty \<^verbatim>\<open>Value\<close> attribute counts as absent. The
  annotation is the last true such value among the Annotation elements; a scene name is
  that value at the first Name element of the scene; track and clip names are that value,
  stripped, at the first name element where it is not blank. The tempo is read from the
  \<^verbatim>\<open>Value\<close> attribute of the first Manual descendant of a Tempo element and never
  from text.
\<close>

theorem value_resolution_as_coded:
  "value_or_text e = (if get e ''Value'' = Some [] then etext e else resolve_text_spec e)
   \<and> annotation (extract_project_info pf doc) =
       (let vs = filter truthy (map value_or_text
                    (filter (\<lambda>e. py_in ''Annotation'' (tag e)) (iter doc)))
        in if vs = [] then None else last vs)
   \<and> scenes (extract_project_info pf doc) =
       concat (map (\<lambda>e. case find (\<lambda>n. py_in ''Name'' (tag n)) (iter e) of
                           None \<Rightarrow> []
                         | Some n \<Rightarrow> if truthy (value_or_text n) then [the (value_or_text n)] else [])
                 (filter (\<lambda>e. py_in ''Scene'' (tag e)) (iter doc)))
   \<and> name (extract_track_info e ty) =
       map_option stripped_value
         (find (\<lambda>n. (py_in ''Name'' (tag n) \<or> py_in ''UserName'' (tag n)) \<and> stripped_value n \<noteq> [])
            (iter e))
   \<and> clip_names (extract_clips doc) =
       concat (map (\<lambda>e. case find (\<lambda>n. py_in ''Name'' (tag n) \<and> stripped_value n \<noteq> []) (iter e) of
                           None \<Rightarrow> [] | Some n \<Rightarrow> [stripped_value n])
                 (filter (\<lambda>e. py_in ''Clip'' (local_name (tag e))) (iter doc)))
   \<and> tempo (extract_project_info pf doc) =
       (let ts = List.map_filter (manual_tempo pf) (filter (\<lambda>e. py_in ''Tempo'' (tag e)) (iter doc))
        in if ts = [] then None else Some (last ts))"
proof -
  have a: "annotation (extract_project_info pf doc) =
       (let vs = filter truthy (map value_or_text
                    (filter (\<lambda>e. py_in ''Annotation'' (tag e)) (iter doc)))
        in if vs = [] then None else last vs)"
    by (rule annotation_extract)
  have sn: "(case scene_name_loop es of None \<Rightarrow> [] | Some v \<Rightarrow> if v = [] then [] else [v]) =
      (case find (\<lambda>n. py_in ''Name'' (tag n)) es of
         None \<Rightarrow> []
       | Some n \<Rightarrow> if truthy (value_or_text n) then [the (value_or_text n)] else [])" for es
    by (simp add: scene_name_loop_find split: option.splits)
  have s: "scenes (extract_project_info pf doc) =
       concat (map (\<lambda>e. case find (\<lambda>n. py_in ''Name'' (tag n)) (iter e) of
                           None \<Rightarrow> []
                         | Some n \<Rightarrow> if truthy (value_or_text n) then [the (value_or_text n)] else [])
                 (filter (\<lambda>e. py_in ''Scene'' (tag e)) (iter doc)))"
    by (simp add: extract_project_info_def fold_scenes sn fold_annotation_scenes
        fold_time_signature_scenes fold_tempo_scenes)
  have n: "name (extract_track_info e ty) =
       map_option stripped_value
         (find (\<lambda>n. (py_in ''Name'' (tag n) \<or> py_in ''UserName'' (tag n)) \<and> stripped_value n \<noteq> [])
            (iter e))"
    by (simp add: extract_track_info_def track_name_loop_find)
  have cn: "(case clip_name_loop es of None \<Rightarrow> [] | Some n \<Rightarrow> [n]) =
      (case find (\<lambda>n. py_in ''Name'' (tag n) \<and> stripped_value n \<noteq> []) es of
         None \<Rightarrow> [] | Some n \<Rightarrow> [stripped_value n])" for es
    by (simp add: clip_name_loop_find split: option.splits)
  have c: "clip_names (extract_clips doc) =
       concat (map (\<lambda>e. case find (\<lambda>n. py_in ''Name'' (tag n) \<and> stripped_value n \<noteq> []) (iter e) of
                           None \<Rightarrow> [] | Some n \<Rightarrow> [stripped_value n])
                 (filter (\<lambda>e. py_in ''Clip'' (local_name (tag e))) (iter doc)))"
    by (simp add: extract_clips_def fold_clip_names cn)
  have t: "tempo (extract_project_info pf doc) =
       (let ts = List.map_filter (manual_tempo pf) (filter (\<lambda>e. py_in ''Tempo'' (tag e)) (iter doc))
        in if ts = [] then None else Some (last ts))"
    by (rule tempo_extract)
  from value_or_text_rule [of e] a s n c t show ?thesis by blast
qed

text \<open>
  The claim C5 as stated fails: a tempo that stands in the text of the Manual element is
  not extracted although the rule resolves it and it parses, and an annotation with an
  empty \<^verbatim>\<open>Value\<close> attribute resolves to its text, not to the attribute.
\<close>

theorem tempo_ignores_text:
  "resolve_text_spec (Elem ''Manual'' [] (Some ''120'') []) = Some ''120''
   \<and> pyfloat env_sample ''120'' = Some 120
   \<and> tempo (extract_project_info (pyfloat env_sample) doc_tempo_text) = None
   \<and> resolve_text_spec (Elem ''Annotation'' [(''Value'', [])] (Some ''rough mix'') []) = Some []
   \<and> annotation (extract_project_info (pyfloat env_sample) doc_annotation) = Some ''rough mix''"
proof -
  have 1: "resolve_text_spec (Elem ''Manual'' [] (Some ''120'') []) = Some ''120''"
    by (simp add: resolve_text_spec_def get_def)
  have 2: "pyfloat env_sample ''120'' = Some 120" by (simp add: env_sample_def)
  have 3: "tempo (extract_project_info pf doc_tempo_text) = None" for pf
    by (simp add: tempo_extract doc_tempo_text_def List.map_filter_simps manual_tempo_def
        find_descendant_def get_def)
  have 4: "resolve_text_spec (Elem ''Annotation'' [(''Value'', [])] (Some ''rough mix'') []) = Some []"
    by (simp add: resolve_text_spec_def get_def)
  have 5: "annotation (extract_project_info pf doc_annotation) = Some ''rough mix''" for pf
    by (simp add: annotation_extract doc_annotation_def value_or_text_def py_or_def get_def)
  from 1 2 3 4 5 show ?thesis by blast
qed

section \<open>Symmetry of the similarity score\<close>

lemma jaccard_commute: "jaccard a b = jaccard b a"
  by (simp add: jaccard_def Int_commute Un_commute)

lemma proximity_commute: "proximity decay absent x y = proximity decay absent y x"
  by (cases x; cases y) (simp_all add: proximity_def abs_minus_commute)

lemma abs_diffs_commute:
  "map (\<lambda>(u, v). \<bar>u - v\<bar>) (zip xs ys) = map (\<lambda>(u, v). \<bar>u - v\<bar>) (zip ys (xs :: real list))"
  by (induction xs ys rule: list_induct2') (simp_all add: abs_minus_commute)

lemma structural_proximity_commute: "structural_proximity cfg a b = structural_proximity cfg b a"
  by (simp only: structural_proximity_def abs_diffs_commute [of "track_profile a"])

text \<open>
  C2. The similarity score of two feature records does not depend on their order, for
  every choice of weights and of decaying functions.
\<close>

theorem similarity_symmetric: "similarity cfg a b = similarity cfg b a"
  unfolding similarity_def
  by (simp only: jaccard_commute [of "feat_plugins a"] jaccard_commute [of "feat_devices a"]
      proximity_commute [of _ _ "feat_tempo a"]
      proximity_commute [of _ _ "feat_arrangement_length a"]
      structural_proximity_commute [of cfg a])

end
